theory Spec2Isabelle
  imports Main "HOL-Library.AList"
begin

section \<open>JavaScript values\<close>

text \<open>
  The request body is parsed JSON. A JSON object is kept as the list of its own
  properties, in the object's property order; \<open>JUndefined\<close> is the value of a missing
  property. A string is the list of its code units, and a character of the model is a
  code unit below 256. The handler never inspects a number, so the numeric payload is an
  integer; how the runtime prints a number is a parameter of the environment.
\<close>

datatype jsval =
    JUndefined
  | JNull
  | JBool bool
  | JNum int
  | JStr string
  | JArr "jsval list"
  | JObj "(string \<times> jsval) list"

type_synonym jsobj = "(string \<times> jsval) list"

text \<open>An exception: its name and its \<open>code\<close> property (\<open>JUndefined\<close> when it has none).\<close>

datatype js_error = JsError (err_name: string) (err_code: jsval)

abbreviation TypeError :: js_error where
  "TypeError \<equiv> JsError ''TypeError'' JUndefined"

subsection \<open>Property lookup on a plain object\<close>

text \<open>
  \<open>CAMPAIGNS\<close>, \<open>connections\<close> and \<open>modelCache\<close> are object literals, so \<open>obj[key]\<close> finds
  the object's own property first and the members of \<open>Object.prototype\<close> after it. Every
  own value stored in these three objects is truthy (a non-empty string, a connection, a
  model) and so is every member of \<open>Object.prototype\<close>.
\<close>

datatype 'a property = Own 'a | Inherited string | Absent

definition Object_prototype :: "string list" where
  "Object_prototype =
     [''constructor'', ''__defineGetter__'', ''__defineSetter__'', ''hasOwnProperty'',
      ''__lookupGetter__'', ''__lookupSetter__'', ''isPrototypeOf'',
      ''propertyIsEnumerable'', ''toString'', ''valueOf'', ''__proto__'',
      ''toLocaleString'']"

definition js_get :: "(string \<Rightarrow> 'a option) \<Rightarrow> string \<Rightarrow> 'a property" where
  "js_get obj k =
     (case obj k of
        Some v \<Rightarrow> Own v
      | None \<Rightarrow> if k \<in> set Object_prototype then Inherited k else Absent)"

fun truthy :: "'a property \<Rightarrow> bool" where
  "truthy Absent = False"
| "truthy (Own v) = True"
| "truthy (Inherited k) = True"

subsection \<open>Contacts\<close>

text \<open>
  \<open>c.email\<close>: \<open>None\<close> is the TypeError of reading a property of \<open>null\<close> or \<open>undefined\<close>;
  a primitive or an array has no such property.
\<close>

fun get_email :: "jsval \<Rightarrow> jsval option" where
  "get_email JUndefined = None"
| "get_email JNull = None"
| "get_email (JObj kvs) = Some (case map_of kvs ''email'' of Some v \<Rightarrow> v | None \<Rightarrow> JUndefined)"
| "get_email (JBool b) = Some JUndefined"
| "get_email (JNum n) = Some JUndefined"
| "get_email (JStr s) = Some JUndefined"
| "get_email (JArr xs) = Some JUndefined"

text \<open>The decimal name of an index, the key of an array element or of a character.\<close>

definition digit :: "nat \<Rightarrow> char" where
  "digit d = ''0123456789'' ! d"

fun index_key :: "nat \<Rightarrow> string" where
  "index_key n = (if n < 10 then [digit n] else index_key (n div 10) @ [digit (n mod 10)])"

text \<open>
  \<open>{...c}\<close>: the own enumerable properties that object spread copies. An array and a
  string have their elements and their characters under the index keys.
\<close>

fun spread :: "jsval \<Rightarrow> jsobj" where
  "spread (JObj kvs) = kvs"
| "spread (JArr xs) = zip (map index_key [0..<length xs]) xs"
| "spread (JStr s) = zip (map index_key [0..<length s]) (map (\<lambda>ch. JStr [ch]) s)"
| "spread JUndefined = []"
| "spread JNull = []"
| "spread (JBool b) = []"
| "spread (JNum n) = []"

text \<open>
  \<open>{ ...c, user_id, conversation_id }\<close>: a property defined later replaces the value
  of an earlier one of the same name, a new name is appended.
\<close>

definition augment :: "string \<Rightarrow> string \<Rightarrow> jsval \<Rightarrow> jsobj" where
  "augment user_id conversation_id c =
     AList.update ''conversation_id'' (JStr conversation_id)
       (AList.update ''user_id'' (JStr user_id) (spread c))"

text \<open>
  \<open>existingEmails.has(c.email)\<close> on the set of the emails of the documents found. A
  document's email is a string (the schema's type), so only a string can be a member.
\<close>

definition Set_has :: "string list \<Rightarrow> jsval \<Rightarrow> bool" where
  "Set_has existingEmails v = (case v of JStr s \<Rightarrow> s \<in> set existingEmails | _ \<Rightarrow> False)"

text \<open>
  \<open>contacts.filter(c => !existingEmails.has(c.email)).map(c => ({...c, user_id,
  conversation_id}))\<close>. It runs after \<open>contacts.map(c => c.email)\<close> has returned, so
  \<open>c.email\<close> raises for no element here.
\<close>

definition newContacts :: "string \<Rightarrow> string \<Rightarrow> string list \<Rightarrow> jsval list \<Rightarrow> jsobj list" where
  "newContacts user_id conversation_id existingEmails contacts =
     map (augment user_id conversation_id)
       (filter (\<lambda>c. case get_email c of
                       Some e \<Rightarrow> \<not> Set_has existingEmails e
                     | None \<Rightarrow> False) contacts)"

section \<open>The request, the response and the external services\<close>

text \<open>\<open>req.header(name)\<close> is a string, or undefined (\<open>None\<close>) when the header is absent.\<close>

record request =
  hdr_user_id :: "string option"
  hdr_conversation_id :: "string option"
  hdr_campaign :: "string option"
  body_contacts :: jsval
  body_subject :: jsval
  body_text :: jsval

text \<open>A header value that is truthy: present and not the empty string.\<close>

fun header :: "string option \<Rightarrow> string option" where
  "header None = None"
| "header (Some s) = (if s = [] then None else Some s)"

record response =
  status :: nat
  body :: jsval

definition bad_request :: "string \<Rightarrow> response" where
  "bad_request e = \<lparr>status = 400, body = JObj [(''error'', JStr e)]\<rparr>"

text \<open>A connection handle and a model bound to it (collection \<open>contacts\<close>).\<close>

datatype conn = Conn (conn_id: nat) (conn_uri: string)

datatype model = Model (model_conn: conn)

text \<open>
  A document as the schema hydrates it, with the fields the handler reads or sets
  (\<open>created_at\<close>, \<open>Title\<close>, \<open>Firm\<close>, \<open>Country\<close> and \<open>LinkedIn URL\<close> are never read).
\<close>

record doc =
  d_user_id :: "string option"
  d_conversation_id :: "string option"
  d_name :: "string option"
  d_email :: string
  d_company :: "string option"

record msg =
  m_to :: string
  m_from :: string
  m_subject :: jsval
  m_text :: jsval
  m_html :: string

text \<open>
  What a request does to the outside, in order: the store calls with their arguments,
  each \<open>sgMail.send\<close> with what it settled to, and the response.
\<close>

datatype event =
    Find conn "jsval list"
  | InsertMany conn "jsobj list" bool
  | Send msg "js_error option"
  | Respond response

text \<open>
  The environment: the configured store location, the store and the mail provider as
  operations on a state \<open>'s\<close> of theirs (\<open>Inl\<close> is a rejected promise), and the two
  functions of the runtime whose result the model does not compute,
  \<open>String.prototype.toLowerCase\<close> and the printing of a number.
\<close>

record 's env =
  MONGO_URI :: string
  Contact_find :: "conn \<Rightarrow> jsval list \<Rightarrow> 's \<Rightarrow> (js_error + doc list) \<times> 's"
  Contact_insertMany :: "conn \<Rightarrow> jsobj list \<Rightarrow> bool \<Rightarrow> 's \<Rightarrow> (js_error + doc list) \<times> 's"
  sgMail_send :: "msg \<Rightarrow> 's \<Rightarrow> js_error option \<times> 's"
  toLowerCase :: "string \<Rightarrow> string"
  Number_toString :: "int \<Rightarrow> string"

text \<open>
  The string conversion of a value parsed from JSON; \<open>None\<close> is the TypeError of a value
  that cannot be converted to a primitive. A primitive always converts. An array converts
  through \<open>Array.prototype.join\<close>: its elements converted in turn, \<open>null\<close> to the empty
  string, with commas between them. A plain object converts through the \<open>toString\<close> it
  finds: \<open>Object.prototype.toString\<close>, which gives \<open>[object Object]\<close>, unless the object
  has a property \<open>toString\<close> of its own. A value parsed from JSON is no function, so such a
  property is skipped, \<open>valueOf\<close> (its own, no function either, or the inherited one, which
  returns the object) yields no primitive, and the conversion throws.
\<close>

fun join :: "string list \<Rightarrow> string" where
  "join [] = []"
| "join [x] = x"
| "join (x # y # ys) = x @ '','' @ join (y # ys)"

fun ToString :: "(int \<Rightarrow> string) \<Rightarrow> jsval \<Rightarrow> string option" where
  "ToString num JUndefined = Some ''undefined''"
| "ToString num JNull = Some ''null''"
| "ToString num (JBool b) = Some (if b then ''true'' else ''false'')"
| "ToString num (JNum n) = Some (num n)"
| "ToString num (JStr s) = Some s"
| "ToString num (JArr xs) =
     map_option join
       (those (map (\<lambda>x. if x = JNull \<or> x = JUndefined then Some [] else ToString num x) xs))"
| "ToString num (JObj kvs) =
     (if map_of kvs ''toString'' = None then Some ''[object Object]'' else None)"

text \<open>The template literal \<open>`${text}`\<close>.\<close>

definition template :: "'s env \<Rightarrow> jsval \<Rightarrow> string option" where
  "template env v = ToString (Number_toString env) v"

text \<open>
  The process state of the multi-campaign server: its two caches, the connections
  \<open>mongoose\<close> has created so far, and the state of the external services.
\<close>

record 's world =
  connections :: "string \<Rightarrow> conn option"
  modelCache :: "string \<Rightarrow> model option"
  mongoose_connections :: "conn list"
  services :: 's

section \<open>campaign.js: connection manager and model cache\<close>

definition CAMPAIGNS :: "(string \<times> string) list" where
  "CAMPAIGNS =
     [(''campaign1'', ''campaign1_db''),
      (''campaign2'', ''campaign2_db''),
      (''campaign3'', ''campaign3_db''),
      (''campaign4'', ''campaign4_db''),
      (''campaign5'', ''campaign5_db'')]"

text \<open>\<open>mongoose.createConnection(uri, ...)\<close>: a new handle on every call.\<close>

definition createConnection :: "string \<Rightarrow> 's world \<Rightarrow> conn \<times> 's world" where
  "createConnection uri w =
     (let c = Conn (length (mongoose_connections w)) uri
      in (c, w\<lparr>mongoose_connections := mongoose_connections w @ [c]\<rparr>))"

text \<open>
  \<open>getCampaignConnection\<close>. The branch \<open>None\<close> of the inner case is never taken: a
  key that is truthy in \<open>CAMPAIGNS\<close> without being its own is inherited, and then it is
  truthy in \<open>connections\<close> as well.
\<close>

definition getCampaignConnection ::
  "'s env \<Rightarrow> string \<Rightarrow> 's world \<Rightarrow> (js_error + conn property) \<times> 's world" where
  "getCampaignConnection env campaignKey w =
     (if \<not> truthy (js_get (map_of CAMPAIGNS) campaignKey)
      then (Inl (JsError ''Error'' JUndefined), w)
      else
        let w' =
          (if \<not> truthy (js_get (connections w) campaignKey) then
             (case map_of CAMPAIGNS campaignKey of
                Some dbName \<Rightarrow>
                  let connectionUri =
                        MONGO_URI env @ ''/'' @ dbName @ ''?retryWrites=true&w=majority'';
                      (c, w1) = createConnection connectionUri w
                  in w1\<lparr>connections := (connections w1)(campaignKey \<mapsto> c)\<rparr>
              | None \<Rightarrow> w)
           else w)
        in (Inr (js_get (connections w') campaignKey), w'))"

text \<open>
  \<open>getContactModel\<close>. \<open>connection.model\<close> of a value that is not a connection is a
  TypeError.
\<close>

definition getContactModel ::
  "'s env \<Rightarrow> string \<Rightarrow> 's world \<Rightarrow> (js_error + model property) \<times> 's world" where
  "getContactModel env campaignKey w =
     (if truthy (js_get (modelCache w) campaignKey)
      then (Inr (js_get (modelCache w) campaignKey), w)
      else
        (case getCampaignConnection env campaignKey w of
           (Inl e, w1) \<Rightarrow> (Inl e, w1)
         | (Inr connection, w1) \<Rightarrow>
             (case connection of
                Own c \<Rightarrow>
                  let w2 = w1\<lparr>modelCache := (modelCache w1)(campaignKey \<mapsto> Model c)\<rparr>
                  in (Inr (js_get (modelCache w2) campaignKey), w2)
              | Inherited k \<Rightarrow> (Inl TypeError, w1)
              | Absent \<Rightarrow> (Inl TypeError, w1))))"

section \<open>The notification dispatch\<close>

text \<open>
  One element of \<open>responseData\<close> is \<open>{name, email, company}\<close>; the message built from
  it, with the sender address of the file and the string \<open>html\<close> the template literal gave.
\<close>

definition mk_msg ::
  "'s env \<Rightarrow> string \<Rightarrow> jsval \<Rightarrow> jsval \<Rightarrow> string
     \<Rightarrow> string option \<times> string \<times> string option \<Rightarrow> msg" where
  "mk_msg env sender subject text0 html email =
     (let sendEmail = toLowerCase env (fst (snd email))
      in \<lparr>m_to = sendEmail, m_from = sender, m_subject = subject, m_text = text0,
          m_html = html\<rparr>)"

text \<open>
  The callbacks of \<open>responseData.map(async (email) => { ... })\<close> up to their \<open>try\<close>: each
  builds its message before it sends, and the template literal stands before the \<open>try\<close>.
  The text is the same in every callback, so either every callback throws the TypeError
  of the conversion before its send, and \<open>Promise.all\<close> rejects with it (\<open>None\<close>), or none
  does. Without an element no callback runs.
\<close>

definition messages ::
  "'s env \<Rightarrow> string \<Rightarrow> jsval \<Rightarrow> jsval \<Rightarrow> (string option \<times> string \<times> string option) list
     \<Rightarrow> msg list option" where
  "messages env sender subject text0 responseData =
     (if responseData = [] then Some []
      else (case template env text0 of
              None \<Rightarrow> None
            | Some html \<Rightarrow> Some (map (mk_msg env sender subject text0 html) responseData)))"

text \<open>
  \<open>await Promise.all(...)\<close> once the messages are built: every send is attempted, in the
  order of the list; a rejected send is caught and logged inside its own callback, so it
  does not reject the joined promise.
\<close>

fun dispatch :: "'s env \<Rightarrow> msg list \<Rightarrow> 's \<Rightarrow> event list \<times> 's" where
  "dispatch env [] s = ([], s)"
| "dispatch env (m # ms) s =
     (case sgMail_send env m s of
        (r, s1) \<Rightarrow> (case dispatch env ms s1 of (evs, s2) \<Rightarrow> (Send m r # evs, s2)))"

text \<open>The \<open>catch\<close> block of both files.\<close>

definition on_error :: "js_error \<Rightarrow> response" where
  "on_error err =
     (if err_code err = JNum 11000 then \<lparr>status = 201, body = JArr []\<rparr>
      else \<lparr>status = 500, body = JObj [(''error'', JStr ''Internal server error'')]\<rparr>)"

declare index_key.simps [simp del]

section \<open>campaign.js: POST /get-unique-emails\<close>

definition campaign_sender :: string where
  "campaign_sender = ''Osteopathic Health Centre <wellness@osteopathydubai.com>''"

text \<open>
  The statements after the four validation checks (lines 122 to 171), for the truthy
  header values and the elements of \<open>contacts\<close>. The result is \<open>Inl\<close> for an exception
  that leaves the \<open>try\<close> block, with the events that happened before it.
\<close>

definition pipeline ::
  "'s env \<Rightarrow> string \<Rightarrow> string \<Rightarrow> string \<Rightarrow> jsval list \<Rightarrow> jsval \<Rightarrow> jsval \<Rightarrow> 's world
     \<Rightarrow> (js_error + unit) \<times> event list \<times> 's world" where
  "pipeline env campaign user_id conversation_id contacts subject text0 w =
     (case getContactModel env campaign w of
        (Inl e, w1) \<Rightarrow> (Inl e, [], w1)
      | (Inr Contact, w1) \<Rightarrow>
          (case those (map get_email contacts) of
             None \<Rightarrow> (Inl TypeError, [], w1)
           | Some incomingEmails \<Rightarrow>
               (case Contact of
                  Inherited k \<Rightarrow> (Inl TypeError, [], w1)
                | Absent \<Rightarrow> (Inl TypeError, [], w1)
                | Own m \<Rightarrow>
                    (case Contact_find env (model_conn m) incomingEmails (services w1) of
                       (Inl e, s2) \<Rightarrow>
                         (Inl e, [Find (model_conn m) incomingEmails], w1\<lparr>services := s2\<rparr>)
                     | (Inr existingDocs, s2) \<Rightarrow>
                         (let existingEmails = map d_email existingDocs;
                              newC = newContacts user_id conversation_id existingEmails contacts
                          in if newC = [] then
                               (Inr (),
                                [Find (model_conn m) incomingEmails,
                                 Respond \<lparr>status = 200,
                                   body = JObj [(''message'', JStr ''These emails already exist in this campaign.''),
                                                (''campaign'', JStr campaign)]\<rparr>],
                                w1\<lparr>services := s2\<rparr>)
                             else
                               (case Contact_insertMany env (model_conn m) newC False s2 of
                                  (Inl e, s3) \<Rightarrow>
                                    (Inl e,
                                     [Find (model_conn m) incomingEmails,
                                      InsertMany (model_conn m) newC False],
                                     w1\<lparr>services := s3\<rparr>)
                                | (Inr inserted, s3) \<Rightarrow>
                                    (let responseData =
                                           map (\<lambda>d. (d_name d, d_email d, d_company d)) inserted
                                     in case messages env campaign_sender subject text0 responseData of
                                          None \<Rightarrow>
                                            (Inl TypeError,
                                             [Find (model_conn m) incomingEmails,
                                              InsertMany (model_conn m) newC False],
                                             w1\<lparr>services := s3\<rparr>)
                                        | Some msgs \<Rightarrow>
                                            (case dispatch env msgs s3 of
                                               (sends, s4) \<Rightarrow>
                                                 (Inr (),
                                                  [Find (model_conn m) incomingEmails,
                                                   InsertMany (model_conn m) newC False]
                                                  @ sends
                                                  @ [Respond \<lparr>status = 200,
                                                       body = JObj [(''message'',
                                                                       JStr (''Successfully processed for campaign: '' @ campaign)),
                                                                    (''inserted'', JNum (int (length responseData))),
                                                                    (''campaign'', JStr campaign)]\<rparr>],
                                                  w1\<lparr>services := s4\<rparr>)))))))))"

text \<open>The \<open>try\<close> block: the four checks in the order of the file, then the pipeline.\<close>

definition try_block ::
  "'s env \<Rightarrow> request \<Rightarrow> 's world \<Rightarrow> (js_error + unit) \<times> event list \<times> 's world" where
  "try_block env req w =
     (case header (hdr_campaign req) of
        None \<Rightarrow> (Inr (), [Respond (bad_request ''Missing campaign header'')], w)
      | Some campaign \<Rightarrow>
          (case (header (hdr_user_id req), header (hdr_conversation_id req)) of
             (Some user_id, Some conversation_id) \<Rightarrow>
               if \<not> truthy (js_get (map_of CAMPAIGNS) campaign) then
                 (Inr (),
                  [Respond (bad_request ''Invalid campaign! Please enter the correct campaign.'')], w)
               else
                 (case body_contacts req of
                    JArr (c # cs) \<Rightarrow>
                      pipeline env campaign user_id conversation_id (c # cs)
                        (body_subject req) (body_text req) w
                  | _ \<Rightarrow>
                      (Inr (), [Respond (bad_request ''Request must include an array of contacts'')], w))
           | _ \<Rightarrow>
               (Inr (),
                [Respond (bad_request ''Missing user_id or conversation_id in headers'')], w)))"

text \<open>The handler: the \<open>try\<close> block and its \<open>catch\<close>.\<close>

definition get_unique_emails :: "'s env \<Rightarrow> request \<Rightarrow> 's world \<Rightarrow> event list \<times> 's world" where
  "get_unique_emails env req w =
     (case try_block env req w of
        (Inr u, evs, w') \<Rightarrow> (evs, w')
      | (Inl err, evs, w') \<Rightarrow> (evs @ [Respond (on_error err)], w'))"

section \<open>server2.js: POST /get-unique-emails\<close>

text \<open>
  The single-store server connects once at start (\<open>mongoose.connect(MONGO_URI)\<close>) and
  binds its one model to that default connection.
\<close>

definition server2_sender :: string where
  "server2_sender = ''on-demand <info@on-demand.io>''"

definition server2_db :: "'s env \<Rightarrow> conn" where
  "server2_db env = Conn 0 (MONGO_URI env)"

definition server2_try_block ::
  "'s env \<Rightarrow> request \<Rightarrow> 's \<Rightarrow> (js_error + unit) \<times> event list \<times> 's" where
  "server2_try_block env req s =
     (case (header (hdr_user_id req), header (hdr_conversation_id req)) of
        (Some user_id, Some conversation_id) \<Rightarrow>
          (case body_contacts req of
             JArr (c # cs) \<Rightarrow>
               (case those (map get_email (c # cs)) of
                  None \<Rightarrow> (Inl TypeError, [], s)
                | Some incomingEmails \<Rightarrow>
                    (case Contact_find env (server2_db env) incomingEmails s of
                       (Inl e, s2) \<Rightarrow> (Inl e, [Find (server2_db env) incomingEmails], s2)
                     | (Inr existingDocs, s2) \<Rightarrow>
                         (let existingEmails = map d_email existingDocs;
                              newC = newContacts user_id conversation_id existingEmails (c # cs)
                          in if newC = [] then
                               (Inr (),
                                [Find (server2_db env) incomingEmails,
                                 Respond \<lparr>status = 200,
                                   body = JObj [(''message'', JStr ''These emails already exist.'')]\<rparr>],
                                s2)
                             else
                               (case Contact_insertMany env (server2_db env) newC False s2 of
                                  (Inl e, s3) \<Rightarrow>
                                    (Inl e,
                                     [Find (server2_db env) incomingEmails,
                                      InsertMany (server2_db env) newC False],
                                     s3)
                                | (Inr inserted, s3) \<Rightarrow>
                                    (let responseData =
                                           map (\<lambda>d. (d_name d, d_email d, d_company d)) inserted
                                     in case messages env server2_sender (body_subject req)
                                               (body_text req) responseData of
                                          None \<Rightarrow>
                                            (Inl TypeError,
                                             [Find (server2_db env) incomingEmails,
                                              InsertMany (server2_db env) newC False],
                                             s3)
                                        | Some msgs \<Rightarrow>
                                            (case dispatch env msgs s3 of
                                               (sends, s4) \<Rightarrow>
                                                 (Inr (),
                                                  [Find (server2_db env) incomingEmails,
                                                   InsertMany (server2_db env) newC False]
                                                  @ sends,
                                                  s4)))))))
           | _ \<Rightarrow>
               (Inr (), [Respond (bad_request ''Request must include an array of contacts'')], s))
      | _ \<Rightarrow>
          (Inr (), [Respond (bad_request ''Missing user_id or conversation_id in headers'')], s))"

definition server2_get_unique_emails :: "'s env \<Rightarrow> request \<Rightarrow> 's \<Rightarrow> event list \<times> 's" where
  "server2_get_unique_emails env req s =
     (case server2_try_block env req s of
        (Inr u, evs, s') \<Rightarrow> (evs, s')
      | (Inl err, evs, s') \<Rightarrow> (evs @ [Respond (on_error err)], s'))"

text \<open>
  What a list of events shows: the responses sent, the messages handed to the mailer,
  the batches handed to the store, and the calls of the store.
\<close>

fun responses :: "event list \<Rightarrow> response list" where
  "responses [] = []"
| "responses (Respond r # evs) = r # responses evs"
| "responses (Find c q # evs) = responses evs"
| "responses (InsertMany c objs b # evs) = responses evs"
| "responses (Send m r # evs) = responses evs"

fun sent :: "event list \<Rightarrow> msg list" where
  "sent [] = []"
| "sent (Send m r # evs) = m # sent evs"
| "sent (Find c q # evs) = sent evs"
| "sent (InsertMany c objs b # evs) = sent evs"
| "sent (Respond r # evs) = sent evs"

fun inserts :: "event list \<Rightarrow> jsobj list list" where
  "inserts [] = []"
| "inserts (InsertMany c objs b # evs) = objs # inserts evs"
| "inserts (Find c q # evs) = inserts evs"
| "inserts (Send m r # evs) = inserts evs"
| "inserts (Respond r # evs) = inserts evs"

fun store_calls :: "event list \<Rightarrow> event list" where
  "store_calls [] = []"
| "store_calls (Find c q # evs) = Find c q # store_calls evs"
| "store_calls (InsertMany c objs b # evs) = InsertMany c objs b # store_calls evs"
| "store_calls (Send m r # evs) = store_calls evs"
| "store_calls (Respond r # evs) = store_calls evs"

section \<open>A reference store, mailer and runtime\<close>

text \<open>
  The document store is an external service: the theorems about the handlers are stated
  for every store, under the hypotheses they name. The reference store is one store that
  meets these hypotheses, and the environment of the concrete runs: one \<open>contacts\<close>
  collection per database location, with the unique index on \<open>email\<close> that the schema
  declares. Its scope is the records of these runs, whose properties are strings under
  the schema's string fields, with a non-empty \<open>email\<close>; on them it keeps the contract of
  the batch insert the handler calls:
  \<^item> a record is validated first; the reference store accepts a record whose \<open>email\<close> is a
    non-empty string (\<open>required\<close>) and keeps the string fields it reads (the casting of a
    value of another type, the fields of another type and an \<open>_id\<close> of the record's own
    are outside its scope);
  \<^item> an unordered insert skips the records that fail validation, writes every remaining
    record whose email is not in the collection yet, and goes on after a write that
    fails; an ordered insert stops at the first failure;
  \<^item> the promise resolves to the validated documents when every write succeeded and is
    rejected with the bulk write error of code 11000 when a write hit the unique index,
    also when other records of the batch were written: the error the \<open>catch\<close> block of
    the handlers tests for.
\<close>

definition str_field :: "jsobj \<Rightarrow> string \<Rightarrow> string option" where
  "str_field obj k = (case map_of obj k of Some (JStr s) \<Rightarrow> Some s | _ \<Rightarrow> None)"

definition hydrate :: "jsobj \<Rightarrow> doc option" where
  "hydrate obj =
     (case str_field obj ''email'' of
        None \<Rightarrow> None
      | Some e \<Rightarrow>
          if e = [] then None
          else Some \<lparr>d_user_id = str_field obj ''user_id'',
                     d_conversation_id = str_field obj ''conversation_id'',
                     d_name = str_field obj ''name'',
                     d_email = e,
                     d_company = str_field obj ''company''\<rparr>)"

text \<open>The collection after the writes, and the number of writes that failed.\<close>

fun insert_unordered :: "doc list \<Rightarrow> doc list \<Rightarrow> doc list \<times> nat" where
  "insert_unordered coll [] = (coll, 0)"
| "insert_unordered coll (d # ds) =
     (if d_email d \<in> set (map d_email coll)
      then (case insert_unordered coll ds of (coll', n) \<Rightarrow> (coll', Suc n))
      else insert_unordered (coll @ [d]) ds)"

fun insert_ordered :: "doc list \<Rightarrow> doc list \<Rightarrow> doc list \<times> nat" where
  "insert_ordered coll [] = (coll, 0)"
| "insert_ordered coll (d # ds) =
     (if d_email d \<in> set (map d_email coll) then (coll, Suc 0)
      else insert_ordered (coll @ [d]) ds)"

definition duplicate_key :: js_error where
  "duplicate_key = JsError ''BulkWriteError'' (JNum 11000)"

definition insertMany_ref :: "bool \<Rightarrow> jsobj list \<Rightarrow> doc list \<Rightarrow> (js_error + doc list) \<times> doc list" where
  "insertMany_ref ordered objs coll =
     (if ordered then
        (case those (map hydrate objs) of
           None \<Rightarrow> (Inl (JsError ''ValidationError'' JUndefined), coll)
         | Some ds \<Rightarrow>
             (case insert_ordered coll ds of
                (coll', n) \<Rightarrow> if n = 0 then (Inr ds, coll') else (Inl duplicate_key, coll')))
      else
        (let ds = List.map_filter hydrate objs
         in case insert_unordered coll ds of
              (coll', n) \<Rightarrow> if n = 0 then (Inr ds, coll') else (Inl duplicate_key, coll')))"

definition find_ref :: "jsval list \<Rightarrow> doc list \<Rightarrow> doc list" where
  "find_ref q coll = filter (\<lambda>d. JStr (d_email d) \<in> set q) coll"

text \<open>
  What the hypotheses about a store speak of, for the reference store: the records it
  accepts, and the records it holds a document for, which is a document with the email
  of the record.
\<close>

definition accepts_ref :: "jsobj \<Rightarrow> bool" where
  "accepts_ref obj = (hydrate obj \<noteq> None)"

definition present_ref :: "(string \<Rightarrow> doc list) \<Rightarrow> conn \<Rightarrow> jsobj \<Rightarrow> bool" where
  "present_ref s db obj =
     (case hydrate obj of
        Some d \<Rightarrow> d_email d \<in> set (map d_email (s (conn_uri db)))
      | None \<Rightarrow> False)"

text \<open>
  Lower-casing of a string of code units below 256. The upper-case letters among them
  are \<open>A\<close> to \<open>Z\<close> and the code units 192 to 222 except 215 (the multiplication sign); the
  lower-case letter of each is 32 above it, which is the same code unit with the bit of
  value 32 set.
\<close>

definition upper_case :: "char \<Rightarrow> bool" where
  "upper_case ch =
     (let n = (of_char ch :: nat)
      in (65 \<le> n \<and> n \<le> 90) \<or> (192 \<le> n \<and> n \<le> 222 \<and> n \<noteq> 215))"

definition lower_char :: "char \<Rightarrow> char" where
  "lower_char ch =
     (if upper_case ch
      then (case ch of Char b0 b1 b2 b3 b4 b5 b6 b7 \<Rightarrow> Char b0 b1 b2 b3 b4 True b6 b7)
      else ch)"

text \<open>
  The printing of an integer that a number of the runtime holds exactly (its magnitude is
  at most \<open>2^53\<close>): plain decimal digits. The runs below print no number.
\<close>

definition decimal :: "int \<Rightarrow> string" where
  "decimal n = (if n < 0 then ''-'' @ index_key (nat (- n)) else index_key (nat n))"

text \<open>
  The reference environment. \<open>concurrent\<close> is what other requests do to the store between
  this request's query and its insert; \<open>undeliverable\<close> are the messages the mail provider
  rejects.
\<close>

definition ref_env ::
  "string \<Rightarrow> ((string \<Rightarrow> doc list) \<Rightarrow> (string \<Rightarrow> doc list)) \<Rightarrow> (msg \<Rightarrow> bool)
     \<Rightarrow> (string \<Rightarrow> doc list) env" where
  "ref_env uri concurrent undeliverable =
     \<lparr>MONGO_URI = uri,
      Contact_find = (\<lambda>c q s. (Inr (find_ref q (s (conn_uri c))), concurrent s)),
      Contact_insertMany =
        (\<lambda>c objs ordered s.
           case insertMany_ref ordered objs (s (conn_uri c)) of
             (r, coll') \<Rightarrow> (r, s(conn_uri c := coll'))),
      sgMail_send =
        (\<lambda>m s. (if undeliverable m then Some (JsError ''ResponseError'' (JNum 403)) else None, s)),
      toLowerCase = map lower_char,
      Number_toString = decimal\<rparr>"

definition empty_world :: "'s \<Rightarrow> 's world" where
  "empty_world s =
     \<lparr>connections = Map.empty, modelCache = Map.empty, mongoose_connections = [], services = s\<rparr>"

section \<open>Example inputs\<close>

definition no_docs :: "string \<Rightarrow> doc list" where
  "no_docs uri = []"

definition ex_env :: "(string \<Rightarrow> doc list) env" where
  "ex_env = ref_env ''mongodb://db.example'' id (\<lambda>m. False)"

definition ex_uri :: string where
  "ex_uri = ''mongodb://db.example/campaign1_db?retryWrites=true&w=majority''"

definition ex_world :: "(string \<Rightarrow> doc list) world" where
  "ex_world = empty_world no_docs"

text \<open>Two new contacts; the first carries a \<open>user_id\<close> of its own.\<close>

definition ex_request :: request where
  "ex_request =
     \<lparr>hdr_user_id = Some ''u1'', hdr_conversation_id = Some ''c1'',
      hdr_campaign = Some ''campaign1'',
      body_contacts =
        JArr [JObj [(''email'', JStr ''Ann@x.com''), (''user_id'', JStr ''intruder'')],
              JObj [(''email'', JStr ''bob@x.com'')]],
      body_subject = JStr ''Hi'', body_text = JStr ''Hello''\<rparr>"

text \<open>A store that already holds one of the two contacts of the example request.\<close>

definition ann_doc :: doc where
  "ann_doc =
     \<lparr>d_user_id = Some ''u0'', d_conversation_id = Some ''c0'', d_name = None,
      d_email = ''Ann@x.com'', d_company = None\<rparr>"

definition ann_stored :: "string \<Rightarrow> doc list" where
  "ann_stored uri = (if uri = ex_uri \<or> uri = ''mongodb://db.example'' then [ann_doc] else [])"

text \<open>A request whose only contact is in that store.\<close>

definition known_request :: request where
  "known_request = ex_request\<lparr>body_contacts := JArr [JObj [(''email'', JStr ''Ann@x.com'')]]\<rparr>"

text \<open>The same new contact twice, and a contact that is \<open>null\<close>.\<close>

definition dup_request :: request where
  "dup_request =
     ex_request\<lparr>body_contacts :=
       JArr [JObj [(''email'', JStr ''ann@x.com'')], JObj [(''email'', JStr ''ann@x.com'')]]\<rparr>"

definition null_request :: request where
  "null_request = ex_request\<lparr>body_contacts := JArr [JNull]\<rparr>"




text \<open>
  Another request stores the first contact of the example request after the query of
  this request and before its insert.
\<close>

definition ann_races :: "(string \<Rightarrow> doc list) \<Rightarrow> (string \<Rightarrow> doc list)" where
  "ann_races s = s(ex_uri := s ex_uri @ [ann_doc])"

definition race_env :: "(string \<Rightarrow> doc list) env" where
  "race_env = ref_env ''mongodb://db.example'' ann_races (\<lambda>m. False)"

section \<open>The new contacts in the words of the specification\<close>

text \<open>
  The input contacts whose email is not among the emails of the existing records
  returned by the store, in input order, each augmented with the two header values.
\<close>

definition spec_newContacts :: "string \<Rightarrow> string \<Rightarrow> doc list \<Rightarrow> jsval list \<Rightarrow> jsobj list" where
  "spec_newContacts user_id conversation_id existingDocs contacts =
     map (augment user_id conversation_id)
       (filter (\<lambda>c. get_email c \<notin> set (map (\<lambda>d. Some (JStr (d_email d))) existingDocs))
          contacts)"

section \<open>Lookups in the registry and the caches\<close>

lemma registered_not_inherited:
  "map_of CAMPAIGNS k = Some db \<Longrightarrow> k \<notin> set Object_prototype"
  by (auto simp: CAMPAIGNS_def Object_prototype_def split: if_splits)

lemma js_get_registered:
  "map_of CAMPAIGNS k = Some db \<Longrightarrow> js_get (map_of CAMPAIGNS) k = Own db"
  by (simp add: js_get_def)

lemma js_get_own: "obj k = Some v \<Longrightarrow> js_get obj k = Own v"
  by (simp add: js_get_def)

lemma js_get_missing:
  "map_of CAMPAIGNS k = Some db \<Longrightarrow> obj k = None \<Longrightarrow> js_get obj k = Absent"
  using registered_not_inherited [of k db] by (simp add: js_get_def)

lemma campaign1_registered: "map_of CAMPAIGNS ''campaign1'' = Some ''campaign1_db''"
  by (simp add: CAMPAIGNS_def)

section \<open>The connection manager\<close>

lemma getCampaignConnection_miss:
  assumes "map_of CAMPAIGNS k = Some db" and "connections w k = None"
  shows "getCampaignConnection env k w =
    (Inr (Own (Conn (length (mongoose_connections w))
                 (MONGO_URI env @ ''/'' @ db @ ''?retryWrites=true&w=majority''))),
     w\<lparr>mongoose_connections := mongoose_connections w @
           [Conn (length (mongoose_connections w))
              (MONGO_URI env @ ''/'' @ db @ ''?retryWrites=true&w=majority'')],
        connections := (connections w)(k \<mapsto> Conn (length (mongoose_connections w))
              (MONGO_URI env @ ''/'' @ db @ ''?retryWrites=true&w=majority''))\<rparr>)"
  using assms
  by (simp add: getCampaignConnection_def js_get_registered js_get_missing js_get_own
      createConnection_def Let_def)

lemma getCampaignConnection_hit:
  assumes "map_of CAMPAIGNS k = Some db" and "connections w k = Some c"
  shows "getCampaignConnection env k w = (Inr (Own c), w)"
  using assms
  by (simp add: getCampaignConnection_def js_get_registered js_get_own)

text \<open>
  C9. \<open>getCampaignConnection\<close> is idempotent per campaign key. For a registered campaign
  with no cached handle, the call creates one connection, to the base location followed
  by \<open>/\<close>, the database name of the campaign and \<open>?retryWrites=true&w=majority\<close>, and
  caches the handle under the campaign key; it touches nothing else. The next call, and
  every call in a state whose cache holds that handle, returns the same handle and
  leaves the state as it is, so no further connection is created.
\<close>

theorem getCampaignConnection_cached:
  assumes "map_of CAMPAIGNS campaignKey = Some dbName"
    and "connections w campaignKey = None"
  shows "\<exists>c w1. getCampaignConnection env campaignKey w = (Inr (Own c), w1)
           \<and> conn_uri c = MONGO_URI env @ ''/'' @ dbName @ ''?retryWrites=true&w=majority''
           \<and> mongoose_connections w1 = mongoose_connections w @ [c]
           \<and> connections w1 = (connections w)(campaignKey \<mapsto> c)
           \<and> modelCache w1 = modelCache w \<and> services w1 = services w
           \<and> getCampaignConnection env campaignKey w1 = (Inr (Own c), w1)
           \<and> (\<forall>w2. connections w2 campaignKey = Some c
                 \<longrightarrow> getCampaignConnection env campaignKey w2 = (Inr (Own c), w2))"
  using assms
  by (simp add: getCampaignConnection_miss getCampaignConnection_hit)

theorem getCampaignConnection_cached_witness:
  "map_of CAMPAIGNS ''campaign1'' = Some ''campaign1_db''
   \<and> connections ex_world ''campaign1'' = None
   \<and> (\<exists>c w1. getCampaignConnection ex_env ''campaign1'' ex_world = (Inr (Own c), w1)
           \<and> conn_uri c = ex_uri
           \<and> mongoose_connections w1 = [c]
           \<and> getCampaignConnection ex_env ''campaign1'' w1 = (Inr (Own c), w1))"
proof -
  have miss: "connections ex_world ''campaign1'' = None"
    by (simp add: ex_world_def empty_world_def)
  from getCampaignConnection_cached [OF campaign1_registered miss, of ex_env]
  obtain c w1 where
    "getCampaignConnection ex_env ''campaign1'' ex_world = (Inr (Own c), w1)"
    "conn_uri c = MONGO_URI ex_env @ ''/'' @ ''campaign1_db'' @ ''?retryWrites=true&w=majority''"
    "mongoose_connections w1 = mongoose_connections ex_world @ [c]"
    "getCampaignConnection ex_env ''campaign1'' w1 = (Inr (Own c), w1)"
    by blast
  then show ?thesis
    using campaign1_registered miss
    by (simp add: ex_env_def ref_env_def ex_world_def empty_world_def ex_uri_def)
qed

section \<open>Events\<close>

lemma responses_append: "responses (xs @ ys) = responses xs @ responses ys"
  by (induction xs rule: responses.induct) simp_all

lemma sent_append: "sent (xs @ ys) = sent xs @ sent ys"
  by (induction xs rule: sent.induct) simp_all

lemma inserts_append: "inserts (xs @ ys) = inserts xs @ inserts ys"
  by (induction xs rule: inserts.induct) simp_all

text \<open>The dispatch attempts one send per message, in order, and does nothing else.\<close>

lemma dispatch_events:
  "dispatch env ms s = (evs, s') \<Longrightarrow>
     sent evs = ms \<and> responses evs = [] \<and> inserts evs = [] \<and> length evs = length ms"
proof (induction ms arbitrary: s evs s')
  case Nil
  then show ?case by simp
next
  case (Cons m ms)
  obtain r s1 where send: "sgMail_send env m s = (r, s1)"
    by (cases "sgMail_send env m s")
  obtain evs1 s2 where rest: "dispatch env ms s1 = (evs1, s2)"
    by (cases "dispatch env ms s1")
  from Cons.prems send rest have "evs = Send m r # evs1"
    by simp
  with Cons.IH [OF rest] show ?case
    by simp
qed

section \<open>The model cache\<close>

text \<open>For a registered campaign the model is always there, cached or built.\<close>

lemma getContactModel_registered:
  assumes "map_of CAMPAIGNS k = Some db"
  shows "\<exists>m w1. getContactModel env k w = (Inr (Own m), w1) \<and> services w1 = services w"
proof (cases "modelCache w k")
  case (Some m)
  then show ?thesis
    by (simp add: getContactModel_def js_get_own)
next
  case None
  note miss = js_get_missing [of k db "modelCache w", OF assms None]
  show ?thesis
  proof (cases "connections w k")
    case None
    then show ?thesis
      using miss
      by (simp add: getContactModel_def getCampaignConnection_miss [OF assms] js_get_own)
  next
    case (Some c)
    then show ?thesis
      using miss
      by (simp add: getContactModel_def getCampaignConnection_hit [OF assms] js_get_own)
  qed
qed

section \<open>The handlers on a request that passes validation\<close>

lemma try_block_valid:
  assumes "header (hdr_campaign req) = Some campaign"
    and "header (hdr_user_id req) = Some user_id"
    and "header (hdr_conversation_id req) = Some conversation_id"
    and "map_of CAMPAIGNS campaign = Some db"
    and "body_contacts req = JArr contacts" and "contacts \<noteq> []"
  shows "try_block env req w =
           pipeline env campaign user_id conversation_id contacts
             (body_subject req) (body_text req) w"
proof -
  obtain c cs where "contacts = c # cs"
    using assms(6) by (cases contacts) auto
  then show ?thesis
    using assms by (simp add: try_block_def js_get_registered)
qed

lemma those_Some_all:
  "those xs = Some ys \<Longrightarrow> xs = map Some ys"
  by (induction xs arbitrary: ys) (auto split: option.splits)

lemma those_map_defined:
  "those (map f xs) = Some ys \<Longrightarrow> x \<in> set xs \<Longrightarrow> \<exists>y. f x = Some y"
  by (induction xs arbitrary: ys) (auto split: option.splits)

lemma Set_has_iff:
  "Set_has (map d_email ex) e \<longleftrightarrow> Some e \<in> set (map (\<lambda>d. Some (JStr (d_email d))) ex)"
  by (cases e) (auto simp: Set_has_def)

text \<open>The filter of the code keeps what the specification's words keep.\<close>

lemma newContacts_spec:
  assumes "those (map get_email contacts) = Some q"
  shows "newContacts uid cid (map d_email ex) contacts = spec_newContacts uid cid ex contacts"
proof -
  have "\<forall>c \<in> set contacts. \<exists>e. get_email c = Some e"
    using those_map_defined [OF assms] by blast
  then have "filter (\<lambda>c. case get_email c of Some e \<Rightarrow> \<not> Set_has (map d_email ex) e | None \<Rightarrow> False) contacts
        = filter (\<lambda>c. get_email c \<notin> set (map (\<lambda>d. Some (JStr (d_email d))) ex)) contacts"
    by (intro filter_cong refl) (auto simp: Set_has_iff)
  then show ?thesis
    by (simp add: newContacts_def spec_newContacts_def)
qed

text \<open>
  Once the query has resolved, the events start with the query and hold one batch
  insert, of the new contacts, unless there is none.
\<close>

lemma pipeline_found:
  assumes "getContactModel env campaign w = (Inr (Own m), w1)"
    and "those (map get_email contacts) = Some q"
    and "Contact_find env (model_conn m) q (services w1) = (Inr ex, s2)"
  shows "\<exists>r rest w'. pipeline env campaign uid cid contacts subj txt w
            = (r, Find (model_conn m) q # rest, w')
          \<and> inserts rest = (if newContacts uid cid (map d_email ex) contacts = [] then []
                            else [newContacts uid cid (map d_email ex) contacts])"
proof (cases "newContacts uid cid (map d_email ex) contacts = []")
  case True
  then show ?thesis
    using assms by (simp add: pipeline_def)
next
  case False
  let ?nc = "newContacts uid cid (map d_email ex) contacts"
  obtain res s3 where ins: "Contact_insertMany env (model_conn m) ?nc False s2 = (res, s3)"
    by (cases "Contact_insertMany env (model_conn m) ?nc False s2")
  show ?thesis
  proof (cases res)
    case (Inl e)
    then show ?thesis
      using assms False ins by (simp add: pipeline_def)
  next
    case (Inr inserted)
    show ?thesis
    proof (cases "messages env campaign_sender subj txt
                    (map (\<lambda>d. (d_name d, d_email d, d_company d)) inserted)")
      case None
      then show ?thesis
        using assms False ins Inr by (simp add: pipeline_def)
    next
      case (Some msgs)
      obtain sends s4 where d: "dispatch env msgs s3 = (sends, s4)"
        by (cases "dispatch env msgs s3")
      from dispatch_events [OF d] have "inserts sends = []" by simp
      then show ?thesis
        using assms False ins Inr Some d by (simp add: pipeline_def inserts_append)
    qed
  qed
qed

text \<open>The same for the single-store handler.\<close>

lemma server2_found:
  assumes "header (hdr_user_id req) = Some uid"
    and "header (hdr_conversation_id req) = Some cid"
    and "body_contacts req = JArr contacts" and "contacts \<noteq> []"
    and "those (map get_email contacts) = Some q"
    and "Contact_find env (server2_db env) q s = (Inr ex, s2)"
  shows "\<exists>r rest s'. server2_try_block env req s = (r, Find (server2_db env) q # rest, s')
          \<and> inserts rest = (if newContacts uid cid (map d_email ex) contacts = [] then []
                            else [newContacts uid cid (map d_email ex) contacts])"
proof -
  obtain c cs where cs: "contacts = c # cs"
    using assms(4) by (cases contacts) auto
  let ?nc = "newContacts uid cid (map d_email ex) contacts"
  show ?thesis
  proof (cases "?nc = []")
    case True
    then show ?thesis
      using assms cs by (simp add: server2_try_block_def)
  next
    case False
    obtain res s3 where ins: "Contact_insertMany env (server2_db env) ?nc False s2 = (res, s3)"
      by (cases "Contact_insertMany env (server2_db env) ?nc False s2")
    show ?thesis
    proof (cases res)
      case (Inl e)
      then show ?thesis
        using assms cs False ins by (simp add: server2_try_block_def)
    next
      case (Inr inserted)
      show ?thesis
      proof (cases "messages env server2_sender (body_subject req) (body_text req)
                      (map (\<lambda>d. (d_name d, d_email d, d_company d)) inserted)")
        case None
        then show ?thesis
          using assms cs False ins Inr by (simp add: server2_try_block_def)
      next
        case (Some msgs)
        obtain sends s4 where d: "dispatch env msgs s3 = (sends, s4)"
          by (cases "dispatch env msgs s3")
        from dispatch_events [OF d] have "inserts sends = []" by simp
        then show ?thesis
          using assms cs False ins Inr Some d by (simp add: server2_try_block_def inserts_append)
      qed
    qed
  qed
qed

lemma handler_of_try:
  "try_block env req w = (r, evs, w') \<Longrightarrow>
     \<exists>tl. fst (get_unique_emails env req w) = evs @ tl \<and> inserts tl = [] \<and> sent tl = []"
  by (cases r) (simp_all add: get_unique_emails_def)

lemma server2_handler_of_try:
  "server2_try_block env req s = (r, evs, s') \<Longrightarrow>
     \<exists>tl. fst (server2_get_unique_emails env req s) = evs @ tl \<and> inserts tl = [] \<and> sent tl = []"
  by (cases r) (simp_all add: server2_get_unique_emails_def)

text \<open>The model of the first campaign in a process that has served no request yet.\<close>

lemma ex_model:
  "getContactModel ex_env ''campaign1'' (empty_world s) =
     (Inr (Own (Model (Conn 0 ex_uri))),
      \<lparr>connections = [''campaign1'' \<mapsto> Conn 0 ex_uri],
       modelCache = [''campaign1'' \<mapsto> Model (Conn 0 ex_uri)],
       mongoose_connections = [Conn 0 ex_uri], services = s\<rparr>)"
  by (simp add: getContactModel_def js_get_missing [OF campaign1_registered] js_get_own
      getCampaignConnection_miss [OF campaign1_registered] empty_world_def
      ex_env_def ref_env_def ex_uri_def)

text \<open>
  C1. For a request that passes validation and whose contacts all allow the property
  read \<open>c.email\<close>, both handlers extract the candidate emails in input order, query the
  store with exactly that list first, and, once the store has returned the existing
  records, hand to the batch insert exactly the input contacts, in input order, whose
  email is not among the emails of those records, each augmented with the two header
  values (no insert when there is none).
\<close>

theorem dedup_pipeline:
  assumes "header (hdr_user_id req) = Some user_id"
    and "header (hdr_conversation_id req) = Some conversation_id"
    and "body_contacts req = JArr contacts" and "contacts \<noteq> []"
    and "those (map get_email contacts) = Some incomingEmails"
  shows "map get_email contacts = map Some incomingEmails
     \<and> (\<forall>campaign dbName m w w1 existingDocs s2.
          header (hdr_campaign req) = Some campaign \<and> map_of CAMPAIGNS campaign = Some dbName
          \<and> getContactModel env campaign w = (Inr (Own m), w1)
          \<and> Contact_find env (model_conn m) incomingEmails (services w1) = (Inr existingDocs, s2)
          \<longrightarrow> (\<exists>rest. fst (get_unique_emails env req w) = Find (model_conn m) incomingEmails # rest
                \<and> inserts rest =
                    (if spec_newContacts user_id conversation_id existingDocs contacts = [] then []
                     else [spec_newContacts user_id conversation_id existingDocs contacts])))
     \<and> (\<forall>s existingDocs s2.
          Contact_find env (server2_db env) incomingEmails s = (Inr existingDocs, s2)
          \<longrightarrow> (\<exists>rest. fst (server2_get_unique_emails env req s)
                         = Find (server2_db env) incomingEmails # rest
                \<and> inserts rest =
                    (if spec_newContacts user_id conversation_id existingDocs contacts = [] then []
                     else [spec_newContacts user_id conversation_id existingDocs contacts])))"
proof (intro conjI allI impI)
  show "map get_email contacts = map Some incomingEmails"
    using those_Some_all [OF assms(5)] .
next
  fix campaign dbName m w w1 existingDocs s2
  assume h: "header (hdr_campaign req) = Some campaign \<and> map_of CAMPAIGNS campaign = Some dbName
          \<and> getContactModel env campaign w = (Inr (Own m), w1)
          \<and> Contact_find env (model_conn m) incomingEmails (services w1) = (Inr existingDocs, s2)"
  from h have tb: "try_block env req w = pipeline env campaign user_id conversation_id contacts
             (body_subject req) (body_text req) w"
    using assms by (intro try_block_valid) auto
  from h pipeline_found [of env campaign w m w1 contacts incomingEmails existingDocs s2
        user_id conversation_id "body_subject req" "body_text req"] assms(5)
  obtain r rest w' where
    p: "pipeline env campaign user_id conversation_id contacts (body_subject req) (body_text req) w
            = (r, Find (model_conn m) incomingEmails # rest, w')"
    and i: "inserts rest = (if newContacts user_id conversation_id (map d_email existingDocs) contacts = [] then []
                            else [newContacts user_id conversation_id (map d_email existingDocs) contacts])"
    by blast
  from handler_of_try [of env req w r "Find (model_conn m) incomingEmails # rest" w'] tb p
  obtain tl where "fst (get_unique_emails env req w) = (Find (model_conn m) incomingEmails # rest) @ tl"
    and "inserts tl = []"
    by auto
  with i show "\<exists>rest. fst (get_unique_emails env req w) = Find (model_conn m) incomingEmails # rest
                \<and> inserts rest =
                    (if spec_newContacts user_id conversation_id existingDocs contacts = [] then []
                     else [spec_newContacts user_id conversation_id existingDocs contacts])"
    by (simp add: inserts_append newContacts_spec [OF assms(5)])
next
  fix s existingDocs s2
  assume f: "Contact_find env (server2_db env) incomingEmails s = (Inr existingDocs, s2)"
  from server2_found [OF assms f]
  obtain r rest s' where
    p: "server2_try_block env req s = (r, Find (server2_db env) incomingEmails # rest, s')"
    and i: "inserts rest = (if newContacts user_id conversation_id (map d_email existingDocs) contacts = [] then []
                            else [newContacts user_id conversation_id (map d_email existingDocs) contacts])"
    by blast
  from server2_handler_of_try [OF p]
  obtain tl where "fst (server2_get_unique_emails env req s) = (Find (server2_db env) incomingEmails # rest) @ tl"
    and "inserts tl = []"
    by auto
  with i show "\<exists>rest. fst (server2_get_unique_emails env req s)
                         = Find (server2_db env) incomingEmails # rest
                \<and> inserts rest =
                    (if spec_newContacts user_id conversation_id existingDocs contacts = [] then []
                     else [spec_newContacts user_id conversation_id existingDocs contacts])"
    by (simp add: inserts_append newContacts_spec [OF assms(5)])
qed

theorem dedup_pipeline_witness:
  "(\<exists>rest. fst (get_unique_emails ex_env ex_request (empty_world ann_stored))
        = Find (Conn 0 ex_uri) [JStr ''Ann@x.com'', JStr ''bob@x.com''] # rest
      \<and> inserts rest =
          [[[(''email'', JStr ''bob@x.com''), (''user_id'', JStr ''u1''),
             (''conversation_id'', JStr ''c1'')]]])
   \<and> (\<exists>rest. fst (server2_get_unique_emails ex_env ex_request ann_stored)
        = Find (Conn 0 ''mongodb://db.example'') [JStr ''Ann@x.com'', JStr ''bob@x.com''] # rest
      \<and> inserts rest =
          [[[(''email'', JStr ''bob@x.com''), (''user_id'', JStr ''u1''),
             (''conversation_id'', JStr ''c1'')]]])"
proof -
  let ?cs = "[JObj [(''email'', JStr ''Ann@x.com''), (''user_id'', JStr ''intruder'')],
              JObj [(''email'', JStr ''bob@x.com'')]]"
  let ?q = "[JStr ''Ann@x.com'', JStr ''bob@x.com'']"
  have h1: "header (hdr_user_id ex_request) = Some ''u1''"
    and h2: "header (hdr_conversation_id ex_request) = Some ''c1''"
    and h3: "body_contacts ex_request = JArr ?cs"
    and h4: "?cs \<noteq> []"
    and h5: "those (map get_email ?cs) = Some ?q"
    by (simp_all add: ex_request_def)
  let ?w1 = "\<lparr>connections = [''campaign1'' \<mapsto> Conn 0 ex_uri],
       modelCache = [''campaign1'' \<mapsto> Model (Conn 0 ex_uri)],
       mongoose_connections = [Conn 0 ex_uri], services = ann_stored\<rparr>"
  note t = dedup_pipeline [OF h1 h2 h3 h4 h5, of ex_env]
  have f1: "Contact_find ex_env (model_conn (Model (Conn 0 ex_uri))) ?q (services ?w1)
              = (Inr [ann_doc], ann_stored)"
    by (simp add: ex_env_def ref_env_def find_ref_def ann_stored_def ann_doc_def)
  have f2: "Contact_find ex_env (server2_db ex_env) ?q ann_stored = (Inr [ann_doc], ann_stored)"
    by (simp add: ex_env_def ref_env_def find_ref_def ann_stored_def ann_doc_def server2_db_def)
  have n: "spec_newContacts ''u1'' ''c1'' [ann_doc] ?cs =
             [[(''email'', JStr ''bob@x.com''), (''user_id'', JStr ''u1''),
               (''conversation_id'', JStr ''c1'')]]"
    by (simp add: spec_newContacts_def ann_doc_def augment_def)
  have hc: "header (hdr_campaign ex_request) = Some ''campaign1''"
    by (simp add: ex_request_def)
  have prem: "header (hdr_campaign ex_request) = Some ''campaign1''
      \<and> map_of CAMPAIGNS ''campaign1'' = Some ''campaign1_db''
      \<and> getContactModel ex_env ''campaign1'' (empty_world ann_stored)
          = (Inr (Own (Model (Conn 0 ex_uri))), ?w1)
      \<and> Contact_find ex_env (model_conn (Model (Conn 0 ex_uri))) ?q (services ?w1)
          = (Inr [ann_doc], ann_stored)"
    by (intro conjI hc campaign1_registered ex_model f1)
  note a = t [THEN conjunct2, THEN conjunct1, rule_format, OF prem]
  note b = t [THEN conjunct2, THEN conjunct2, rule_format, OF f2]
  have db: "server2_db ex_env = Conn 0 ''mongodb://db.example''"
    by (simp add: server2_db_def ex_env_def ref_env_def)
  from a b show ?thesis
    by (simp only: n db model.sel list.simps if_False simp_thms)
qed

section \<open>The records handed to the batch insert\<close>

lemma map_of_augment:
  "map_of (augment uid cid c) =
     (map_of (spread c))(''user_id'' \<mapsto> JStr uid, ''conversation_id'' \<mapsto> JStr cid)"
  by (simp add: augment_def update_conv')

lemma newContacts_fields:
  assumes "obj \<in> set (newContacts uid cid ex contacts)"
  shows "map_of obj ''user_id'' = Some (JStr uid)
       \<and> map_of obj ''conversation_id'' = Some (JStr cid)"
proof -
  from assms obtain c where "obj = augment uid cid c"
    by (auto simp: newContacts_def)
  then show ?thesis
    by (simp add: map_of_augment)
qed

lemma pipeline_inserts:
  assumes "pipeline env campaign uid cid contacts subj txt w = (r, evs, w')"
  shows "inserts evs = [] \<or> (\<exists>ex. inserts evs = [newContacts uid cid ex contacts])"
  using assms
  by (auto simp: pipeline_def Let_def inserts_append dest: dispatch_events
      split: prod.splits sum.splits option.splits property.splits if_splits)

text \<open>A request either fails one of the four checks or enters the pipeline.\<close>

lemma try_block_cases:
  assumes "try_block env req w = (r, evs, w')"
  shows "(\<exists>e. r = Inr () \<and> evs = [Respond (bad_request e)] \<and> w' = w)
       \<or> (\<exists>campaign uid cid contacts.
            header (hdr_campaign req) = Some campaign
          \<and> header (hdr_user_id req) = Some uid
          \<and> header (hdr_conversation_id req) = Some cid
          \<and> truthy (js_get (map_of CAMPAIGNS) campaign)
          \<and> body_contacts req = JArr contacts \<and> contacts \<noteq> []
          \<and> pipeline env campaign uid cid contacts (body_subject req) (body_text req) w
              = (r, evs, w'))"
  using assms
  by (auto simp: try_block_def split: option.splits if_splits jsval.splits list.splits)

lemma try_block_inserts:
  assumes "header (hdr_user_id req) = Some uid"
    and "header (hdr_conversation_id req) = Some cid"
    and "try_block env req w = (r, evs, w')"
  shows "inserts evs = [] \<or> (\<exists>ex cs. inserts evs = [newContacts uid cid ex cs])"
proof -
  from try_block_cases [OF assms(3)] show ?thesis
  proof (elim disjE exE conjE)
    fix e
    assume "evs = [Respond (bad_request e)]"
    then show ?thesis by simp
  next
    fix campaign uid' cid' contacts
    assume "header (hdr_user_id req) = Some uid'" "header (hdr_conversation_id req) = Some cid'"
      and "pipeline env campaign uid' cid' contacts (body_subject req) (body_text req) w
              = (r, evs, w')"
    with assms(1,2) pipeline_inserts [of env campaign uid cid contacts _ _ w r evs w']
    show ?thesis by auto
  qed
qed

lemma server2_try_block_inserts:
  assumes "header (hdr_user_id req) = Some uid"
    and "header (hdr_conversation_id req) = Some cid"
    and "server2_try_block env req s = (r, evs, s')"
  shows "inserts evs = [] \<or> (\<exists>ex. inserts evs = [newContacts uid cid ex (case body_contacts req of JArr cs \<Rightarrow> cs | _ \<Rightarrow> [])])"
  using assms
  by (auto simp: server2_try_block_def Let_def inserts_append dest: dispatch_events
      split: prod.splits sum.splits option.splits if_splits jsval.splits list.splits)


section \<open>The reference environment at work\<close>

lemma ref_env_sel:
  "MONGO_URI (ref_env uri concurrent undeliverable) = uri"
  "Contact_find (ref_env uri concurrent undeliverable) c q s
     = (Inr (find_ref q (s (conn_uri c))), concurrent s)"
  "Contact_insertMany (ref_env uri concurrent undeliverable) c objs ordered s
     = (case insertMany_ref ordered objs (s (conn_uri c)) of
          (r, coll') \<Rightarrow> (r, s(conn_uri c := coll')))"
  "sgMail_send (ref_env uri concurrent undeliverable) m s
     = (if undeliverable m then Some (JsError ''ResponseError'' (JNum 403)) else None, s)"
  "toLowerCase (ref_env uri concurrent undeliverable) = map lower_char"
  "Number_toString (ref_env uri concurrent undeliverable) = decimal"
  by (simp_all add: ref_env_def)

lemmas ex_env_sel = ref_env_sel [of "''mongodb://db.example''" id "\<lambda>m. False", folded ex_env_def]

lemma ex_run:
  "get_unique_emails ex_env ex_request ex_world =
     ([Find (Conn 0 ex_uri) [JStr ''Ann@x.com'', JStr ''bob@x.com''],
       InsertMany (Conn 0 ex_uri)
         [[(''email'', JStr ''Ann@x.com''), (''user_id'', JStr ''u1''),
           (''conversation_id'', JStr ''c1'')],
          [(''email'', JStr ''bob@x.com''), (''user_id'', JStr ''u1''),
           (''conversation_id'', JStr ''c1'')]] False,
       Send \<lparr>m_to = ''ann@x.com'', m_from = campaign_sender, m_subject = JStr ''Hi'',
              m_text = JStr ''Hello'', m_html = ''Hello''\<rparr> None,
       Send \<lparr>m_to = ''bob@x.com'', m_from = campaign_sender, m_subject = JStr ''Hi'',
              m_text = JStr ''Hello'', m_html = ''Hello''\<rparr> None,
       Respond \<lparr>status = 200,
                 body = JObj [(''message'', JStr ''Successfully processed for campaign: campaign1''),
                              (''inserted'', JNum 2), (''campaign'', JStr ''campaign1'')]\<rparr>],
      \<lparr>connections = [''campaign1'' \<mapsto> Conn 0 ex_uri],
       modelCache = [''campaign1'' \<mapsto> Model (Conn 0 ex_uri)],
       mongoose_connections = [Conn 0 ex_uri],
       services = no_docs(ex_uri :=
         [\<lparr>d_user_id = Some ''u1'', d_conversation_id = Some ''c1'', d_name = None,
            d_email = ''Ann@x.com'', d_company = None\<rparr>,
          \<lparr>d_user_id = Some ''u1'', d_conversation_id = Some ''c1'', d_name = None,
            d_email = ''bob@x.com'', d_company = None\<rparr>])\<rparr>)"
  unfolding ex_world_def
  by (simp add: get_unique_emails_def try_block_def pipeline_def ex_model
      js_get_registered [OF campaign1_registered] ex_request_def
      newContacts_def augment_def Set_has_def mk_msg_def messages_def template_def
      ex_env_sel find_ref_def insertMany_ref_def hydrate_def str_field_def
      lower_char_def upper_case_def no_docs_def ex_uri_def)


lemma hydrate_fields:
  assumes "map_of obj ''user_id'' = Some (JStr uid)"
    and "map_of obj ''conversation_id'' = Some (JStr cid)"
    and "hydrate obj = Some d"
  shows "d_user_id d = Some uid \<and> d_conversation_id d = Some cid"
  using assms
  by (auto simp: hydrate_def str_field_def split: option.splits if_splits)

text \<open>
  C10. Every record handed to the batch insert, by either handler, carries the
  \<open>user_id\<close> and \<open>conversation_id\<close> of the request headers, whatever the contact of the
  payload carried under these names: the two header values are written after the
  contact's own properties were copied, and the other properties keep the contact's
  values. The document the reference store persists for such a record has the header
  values as well.
\<close>

theorem header_values_override_payload:
  assumes "header (hdr_user_id req) = Some user_id"
    and "header (hdr_conversation_id req) = Some conversation_id"
  shows "(\<forall>c. map_of (augment user_id conversation_id c) =
              (map_of (spread c))(''user_id'' \<mapsto> JStr user_id,
                                  ''conversation_id'' \<mapsto> JStr conversation_id))
       \<and> (\<forall>objs \<in> set (inserts (fst (get_unique_emails env req w))
                        @ inserts (fst (server2_get_unique_emails env req s))).
            \<forall>obj \<in> set objs.
              map_of obj ''user_id'' = Some (JStr user_id)
            \<and> map_of obj ''conversation_id'' = Some (JStr conversation_id)
            \<and> (\<forall>d. hydrate obj = Some d
                   \<longrightarrow> d_user_id d = Some user_id \<and> d_conversation_id d = Some conversation_id))"
proof -
  have "map_of obj ''user_id'' = Some (JStr user_id)
        \<and> map_of obj ''conversation_id'' = Some (JStr conversation_id)
        \<and> (\<forall>d. hydrate obj = Some d
               \<longrightarrow> d_user_id d = Some user_id \<and> d_conversation_id d = Some conversation_id)"
    if objs: "objs \<in> set (inserts (fst (get_unique_emails env req w))
                        @ inserts (fst (server2_get_unique_emails env req s)))"
      and obj: "obj \<in> set objs" for objs obj
  proof -
    obtain r evs w' where tb: "try_block env req w = (r, evs, w')"
      by (cases "try_block env req w")
    obtain r2 evs2 s' where tb2: "server2_try_block env req s = (r2, evs2, s')"
      by (cases "server2_try_block env req s")
    from handler_of_try [OF tb] have i1: "inserts (fst (get_unique_emails env req w)) = inserts evs"
      by (auto simp: inserts_append)
    from server2_handler_of_try [OF tb2]
    have i2: "inserts (fst (server2_get_unique_emails env req s)) = inserts evs2"
      by (auto simp: inserts_append)
    from objs i1 i2 try_block_inserts [OF assms tb] server2_try_block_inserts [OF assms tb2]
    obtain ex cs where "objs = newContacts user_id conversation_id ex cs"
      by auto
    with obj have f: "map_of obj ''user_id'' = Some (JStr user_id)
              \<and> map_of obj ''conversation_id'' = Some (JStr conversation_id)"
      using newContacts_fields by blast
    then show ?thesis
      using hydrate_fields by blast
  qed
  then show ?thesis
    using map_of_augment by blast
qed

theorem header_values_override_payload_witness:
  "map (\<lambda>obj. (map_of obj ''user_id'', map_of obj ''conversation_id''))
     (concat (inserts (fst (get_unique_emails ex_env ex_request ex_world))))
     = [(Some (JStr ''u1''), Some (JStr ''c1'')), (Some (JStr ''u1''), Some (JStr ''c1''))]
   \<and> map_of (augment ''u1'' ''c1'' (JObj [(''email'', JStr ''Ann@x.com''), (''user_id'', JStr ''intruder'')]))
     = [''email'' \<mapsto> JStr ''Ann@x.com'', ''user_id'' \<mapsto> JStr ''u1'',
        ''conversation_id'' \<mapsto> JStr ''c1'']"
proof -
  have h1: "header (hdr_user_id ex_request) = Some ''u1''"
    and h2: "header (hdr_conversation_id ex_request) = Some ''c1''"
    by (simp_all add: ex_request_def)
  note t = header_values_override_payload [OF h1 h2, of ex_env ex_world no_docs]
  have ins: "inserts (fst (get_unique_emails ex_env ex_request ex_world)) =
      [[[(''email'', JStr ''Ann@x.com''), (''user_id'', JStr ''u1''),
           (''conversation_id'', JStr ''c1'')],
          [(''email'', JStr ''bob@x.com''), (''user_id'', JStr ''u1''),
           (''conversation_id'', JStr ''c1'')]]]"
    by (simp add: ex_run)
  from t have "\<forall>obj \<in> set (concat (inserts (fst (get_unique_emails ex_env ex_request ex_world)))).
       map_of obj ''user_id'' = Some (JStr ''u1'') \<and> map_of obj ''conversation_id'' = Some (JStr ''c1'')"
    by auto
  then have a: "map (\<lambda>obj. (map_of obj ''user_id'', map_of obj ''conversation_id''))
     (concat (inserts (fst (get_unique_emails ex_env ex_request ex_world))))
     = map (\<lambda>obj. (Some (JStr ''u1''), Some (JStr ''c1'')))
        (concat (inserts (fst (get_unique_emails ex_env ex_request ex_world))))"
    by (intro map_cong refl) auto
  from t have b: "map_of (augment ''u1'' ''c1'' (JObj [(''email'', JStr ''Ann@x.com''), (''user_id'', JStr ''intruder'')]))
     = (map_of (spread (JObj [(''email'', JStr ''Ann@x.com''), (''user_id'', JStr ''intruder'')])))
         (''user_id'' \<mapsto> JStr ''u1'', ''conversation_id'' \<mapsto> JStr ''c1'')"
    by blast
  show ?thesis
    unfolding a b by (auto simp: ins)
qed

section \<open>Nothing new\<close>

lemma newContacts_none:
  assumes "those (map get_email contacts) = Some q"
    and "\<forall>c \<in> set contacts.
           get_email c \<in> set (map (\<lambda>d. Some (JStr (d_email d))) (ex :: doc list))"
  shows "newContacts uid cid (map d_email ex) contacts = []"
  using assms(2) by (simp add: newContacts_spec [OF assms(1)] spec_newContacts_def)

text \<open>
  C6. When every input contact's email is the email of a record the store returned,
  both handlers answer 200 with the message that the emails already exist (and the
  campaign, in the multi-campaign file), and that is all they do after the query: the
  events are the query and the response, so there is no insert and no send, and the
  body has no \<open>inserted\<close> property.
\<close>

theorem all_existing_no_insert:
  assumes "header (hdr_user_id req) = Some user_id"
    and "header (hdr_conversation_id req) = Some conversation_id"
    and "body_contacts req = JArr contacts" and "contacts \<noteq> []"
    and "those (map get_email contacts) = Some incomingEmails"
    and "\<forall>c \<in> set contacts.
           get_email c \<in> set (map (\<lambda>d. Some (JStr (d_email d))) existingDocs)"
  shows "(\<forall>campaign dbName m w w1 s2.
            header (hdr_campaign req) = Some campaign \<and> map_of CAMPAIGNS campaign = Some dbName
          \<and> getContactModel env campaign w = (Inr (Own m), w1)
          \<and> Contact_find env (model_conn m) incomingEmails (services w1) = (Inr existingDocs, s2)
          \<longrightarrow> get_unique_emails env req w =
                ([Find (model_conn m) incomingEmails,
                  Respond \<lparr>status = 200,
                    body = JObj [(''message'', JStr ''These emails already exist in this campaign.''),
                                 (''campaign'', JStr campaign)]\<rparr>],
                 w1\<lparr>services := s2\<rparr>))
       \<and> (\<forall>s s2.
            Contact_find env (server2_db env) incomingEmails s = (Inr existingDocs, s2)
          \<longrightarrow> server2_get_unique_emails env req s =
                ([Find (server2_db env) incomingEmails,
                  Respond \<lparr>status = 200,
                    body = JObj [(''message'', JStr ''These emails already exist.'')]\<rparr>],
                 s2))"
proof -
  note none = newContacts_none [OF assms(5,6), of user_id conversation_id]
  have multi: "get_unique_emails env req w =
                ([Find (model_conn m) incomingEmails,
                  Respond \<lparr>status = 200,
                    body = JObj [(''message'', JStr ''These emails already exist in this campaign.''),
                                 (''campaign'', JStr campaign)]\<rparr>],
                 w1\<lparr>services := s2\<rparr>)"
    if "header (hdr_campaign req) = Some campaign" "map_of CAMPAIGNS campaign = Some dbName"
      "getContactModel env campaign w = (Inr (Own m), w1)"
      "Contact_find env (model_conn m) incomingEmails (services w1) = (Inr existingDocs, s2)"
    for campaign dbName m w w1 s2
    using that assms(5) none
    by (simp add: get_unique_emails_def
        try_block_valid [OF that(1) assms(1,2) that(2) assms(3,4)] pipeline_def)
  have single: "server2_get_unique_emails env req s =
                ([Find (server2_db env) incomingEmails,
                  Respond \<lparr>status = 200,
                    body = JObj [(''message'', JStr ''These emails already exist.'')]\<rparr>],
                 s2)"
    if "Contact_find env (server2_db env) incomingEmails s = (Inr existingDocs, s2)" for s s2
  proof -
    obtain c cs where "contacts = c # cs"
      using assms(4) by (cases contacts) auto
    then show ?thesis
      using that assms(1,2,3,5) none
      by (simp add: server2_get_unique_emails_def server2_try_block_def)
  qed
  from multi single show ?thesis
    by blast
qed

theorem all_existing_no_insert_witness:
  "get_unique_emails ex_env known_request (empty_world ann_stored) =
     ([Find (Conn 0 ex_uri) [JStr ''Ann@x.com''],
       Respond \<lparr>status = 200,
         body = JObj [(''message'', JStr ''These emails already exist in this campaign.''),
                      (''campaign'', JStr ''campaign1'')]\<rparr>],
      \<lparr>connections = [''campaign1'' \<mapsto> Conn 0 ex_uri],
       modelCache = [''campaign1'' \<mapsto> Model (Conn 0 ex_uri)],
       mongoose_connections = [Conn 0 ex_uri], services = ann_stored\<rparr>)
   \<and> server2_get_unique_emails ex_env known_request ann_stored =
     ([Find (Conn 0 ''mongodb://db.example'') [JStr ''Ann@x.com''],
       Respond \<lparr>status = 200,
         body = JObj [(''message'', JStr ''These emails already exist.'')]\<rparr>],
      ann_stored)"
proof -
  let ?cs = "[JObj [(''email'', JStr ''Ann@x.com'')]]"
  let ?q = "[JStr ''Ann@x.com'']"
  let ?w1 = "\<lparr>connections = [''campaign1'' \<mapsto> Conn 0 ex_uri],
       modelCache = [''campaign1'' \<mapsto> Model (Conn 0 ex_uri)],
       mongoose_connections = [Conn 0 ex_uri], services = ann_stored\<rparr>"
  have h1: "header (hdr_user_id known_request) = Some ''u1''"
    and h2: "header (hdr_conversation_id known_request) = Some ''c1''"
    and h3: "body_contacts known_request = JArr ?cs"
    and h4: "?cs \<noteq> []"
    and h5: "those (map get_email ?cs) = Some ?q"
    and h6: "\<forall>c \<in> set ?cs. get_email c \<in> set (map (\<lambda>d. Some (JStr (d_email d))) [ann_doc])"
    and hc: "header (hdr_campaign known_request) = Some ''campaign1''"
    by (simp_all add: known_request_def ex_request_def ann_doc_def)
  note t = all_existing_no_insert [OF h1 h2 h3 h4 h5 h6, of ex_env]
  have f1: "Contact_find ex_env (model_conn (Model (Conn 0 ex_uri))) ?q (services ?w1)
              = (Inr [ann_doc], ann_stored)"
    by (simp add: ex_env_sel find_ref_def ann_stored_def ann_doc_def)
  have f2: "Contact_find ex_env (server2_db ex_env) ?q ann_stored = (Inr [ann_doc], ann_stored)"
    by (simp add: ex_env_sel find_ref_def ann_stored_def ann_doc_def server2_db_def)
  have prem: "header (hdr_campaign known_request) = Some ''campaign1''
      \<and> map_of CAMPAIGNS ''campaign1'' = Some ''campaign1_db''
      \<and> getContactModel ex_env ''campaign1'' (empty_world ann_stored)
          = (Inr (Own (Model (Conn 0 ex_uri))), ?w1)
      \<and> Contact_find ex_env (model_conn (Model (Conn 0 ex_uri))) ?q (services ?w1)
          = (Inr [ann_doc], ann_stored)"
    by (intro conjI hc campaign1_registered ex_model f1)
  note a = t [THEN conjunct1, rule_format, OF prem]
  note b = t [THEN conjunct2, rule_format, OF f2]
  have db: "server2_db ex_env = Conn 0 ''mongodb://db.example''"
    by (simp add: server2_db_def ex_env_sel)
  from a b show ?thesis
    by (simp add: db)
qed

section \<open>Exceptions\<close>

lemma pipeline_error_events:
  assumes "pipeline env campaign uid cid contacts subj txt w = (Inl e, evs, w')"
  shows "responses evs = [] \<and> sent evs = []"
  using assms
  by (auto simp: pipeline_def Let_def
      split: prod.splits sum.splits option.splits property.splits if_splits)

lemma try_block_error_events:
  assumes "try_block env req w = (Inl e, evs, w')"
  shows "responses evs = [] \<and> sent evs = []"
  using try_block_cases [OF assms] pipeline_error_events by blast

lemma server2_try_block_error_events:
  assumes "server2_try_block env req s = (Inl e, evs, s')"
  shows "responses evs = [] \<and> sent evs = []"
  using assms
  by (auto simp: server2_try_block_def Let_def
      split: prod.splits sum.splits option.splits if_splits jsval.splits list.splits)

text \<open>
  C7. Whatever exception leaves the \<open>try\<close> block of either handler, no response has been
  sent before it, and the handler then sends exactly one: 201 with an empty array when
  the \<open>code\<close> of the exception is 11000, and otherwise 500 with the body
  \<open>{ error: "Internal server error" }\<close>.
\<close>

theorem errors_at_top_level:
  "(\<forall>err evs w'. try_block env req w = (Inl err, evs, w') \<longrightarrow>
        responses evs = []
      \<and> get_unique_emails env req w =
          (evs @ [Respond (if err_code err = JNum 11000
                           then \<lparr>status = 201, body = JArr []\<rparr>
                           else \<lparr>status = 500,
                                 body = JObj [(''error'', JStr ''Internal server error'')]\<rparr>)],
           w'))
 \<and> (\<forall>err evs s'. server2_try_block env req s = (Inl err, evs, s') \<longrightarrow>
        responses evs = []
      \<and> server2_get_unique_emails env req s =
          (evs @ [Respond (if err_code err = JNum 11000
                           then \<lparr>status = 201, body = JArr []\<rparr>
                           else \<lparr>status = 500,
                                 body = JObj [(''error'', JStr ''Internal server error'')]\<rparr>)],
           s'))"
  using try_block_error_events [of env req w] server2_try_block_error_events [of env req s]
  by (auto simp: get_unique_emails_def server2_get_unique_emails_def on_error_def)

lemma dup_try:
  "try_block ex_env dup_request ex_world =
     (Inl (JsError ''BulkWriteError'' (JNum 11000)),
      [Find (Conn 0 ex_uri) [JStr ''ann@x.com'', JStr ''ann@x.com''],
       InsertMany (Conn 0 ex_uri)
         [[(''email'', JStr ''ann@x.com''), (''user_id'', JStr ''u1''),
           (''conversation_id'', JStr ''c1'')],
          [(''email'', JStr ''ann@x.com''), (''user_id'', JStr ''u1''),
           (''conversation_id'', JStr ''c1'')]] False],
      \<lparr>connections = [''campaign1'' \<mapsto> Conn 0 ex_uri],
       modelCache = [''campaign1'' \<mapsto> Model (Conn 0 ex_uri)],
       mongoose_connections = [Conn 0 ex_uri],
       services = no_docs(ex_uri :=
         [\<lparr>d_user_id = Some ''u1'', d_conversation_id = Some ''c1'', d_name = None,
            d_email = ''ann@x.com'', d_company = None\<rparr>])\<rparr>)"
  unfolding ex_world_def
  by (simp add: try_block_def pipeline_def ex_model
      js_get_registered [OF campaign1_registered] dup_request_def ex_request_def
      newContacts_def augment_def Set_has_def duplicate_key_def
      ex_env_sel find_ref_def insertMany_ref_def hydrate_def str_field_def
      no_docs_def ex_uri_def)

lemma null_try:
  "server2_try_block ex_env null_request no_docs = (Inl TypeError, [], no_docs)"
  by (simp add: server2_try_block_def null_request_def ex_request_def)

theorem errors_at_top_level_witness:
  "fst (get_unique_emails ex_env dup_request ex_world) =
     [Find (Conn 0 ex_uri) [JStr ''ann@x.com'', JStr ''ann@x.com''],
      InsertMany (Conn 0 ex_uri)
        [[(''email'', JStr ''ann@x.com''), (''user_id'', JStr ''u1''),
          (''conversation_id'', JStr ''c1'')],
         [(''email'', JStr ''ann@x.com''), (''user_id'', JStr ''u1''),
          (''conversation_id'', JStr ''c1'')]] False,
      Respond \<lparr>status = 201, body = JArr []\<rparr>]
   \<and> server2_get_unique_emails ex_env null_request no_docs =
     ([Respond \<lparr>status = 500, body = JObj [(''error'', JStr ''Internal server error'')]\<rparr>],
      no_docs)"
proof -
  note a = errors_at_top_level [where env = ex_env and req = dup_request and w = ex_world,
      THEN conjunct1, rule_format, OF dup_try]
  note b = errors_at_top_level [where env = ex_env and req = null_request and s = no_docs,
      THEN conjunct2, rule_format, OF null_try]
  from a b show ?thesis
    by simp
qed

section \<open>The dispatch after a successful insert\<close>



lemma mk_msg_mailer:
  "mk_msg (env\<lparr>sgMail_send := mailer\<rparr>) = mk_msg env"
  by (simp add: mk_msg_def fun_eq_iff)

lemma template_mailer:
  "template (env\<lparr>sgMail_send := mailer\<rparr>) = template env"
  by (simp add: template_def fun_eq_iff)

lemma messages_mailer:
  "messages (env\<lparr>sgMail_send := mailer\<rparr>) = messages env"
  by (simp add: messages_def mk_msg_mailer template_mailer fun_eq_iff split: option.split)



text \<open>An object with a property \<open>toString\<close> of its own has no conversion.\<close>

lemma template_own_toString:
  "map_of kvs ''toString'' = Some v \<Longrightarrow> template env (JObj kvs) = None"
  by (simp add: template_def)

lemma messages_built:
  "template env txt = Some html \<Longrightarrow>
     messages env sender subj txt rd = Some (map (mk_msg env sender subj txt html) rd)"
  by (simp add: messages_def)

lemma messages_thrown:
  "template env txt = None \<Longrightarrow> rd \<noteq> [] \<Longrightarrow> messages env sender subj txt rd = None"
  by (simp add: messages_def)


text \<open>
  The same for a text that has no conversion: once the insert has resolved to a record,
  the template literal throws in every callback, no send is attempted, and the exception
  leaves the \<open>try\<close> block.
\<close>

lemma pipeline_thrown:
  assumes "getContactModel env campaign w = (Inr (Own m), w1)"
    and "those (map get_email contacts) = Some q"
    and "Contact_find env (model_conn m) q (services w1) = (Inr ex, s2)"
    and "newContacts uid cid (map d_email ex) contacts \<noteq> []"
    and "Contact_insertMany env (model_conn m)
           (newContacts uid cid (map d_email ex) contacts) False s2 = (Inr inserted, s3)"
    and "inserted \<noteq> []" and "template env txt = None"
  shows "pipeline env campaign uid cid contacts subj txt w =
            (Inl TypeError,
             [Find (model_conn m) q,
              InsertMany (model_conn m) (newContacts uid cid (map d_email ex) contacts) False],
             w1\<lparr>services := s3\<rparr>)"
  using assms by (simp add: pipeline_def messages_thrown)


lemma server2_inserted:
  assumes "header (hdr_user_id req) = Some uid"
    and "header (hdr_conversation_id req) = Some cid"
    and "body_contacts req = JArr contacts" and "contacts \<noteq> []"
    and "those (map get_email contacts) = Some q"
    and "Contact_find env (server2_db env) q s = (Inr ex, s2)"
    and "newContacts uid cid (map d_email ex) contacts \<noteq> []"
    and "Contact_insertMany env (server2_db env)
           (newContacts uid cid (map d_email ex) contacts) False s2 = (Inr inserted, s3)"
    and "template env (body_text req) = Some html"
  shows "\<exists>sends s4.
           dispatch env (map (\<lambda>d. mk_msg env server2_sender (body_subject req) (body_text req) html
                                   (d_name d, d_email d, d_company d)) inserted) s3 = (sends, s4)
         \<and> server2_get_unique_emails env req s =
            ([Find (server2_db env) q,
              InsertMany (server2_db env) (newContacts uid cid (map d_email ex) contacts) False]
             @ sends, s4)"
proof -
  obtain c cs where cs: "contacts = c # cs"
    using assms(4) by (cases contacts) auto
  obtain sends s4 where
    d: "dispatch env (map (\<lambda>d. mk_msg env server2_sender (body_subject req) (body_text req) html
                                   (d_name d, d_email d, d_company d)) inserted) s3 = (sends, s4)"
    by (cases "dispatch env (map (\<lambda>d. mk_msg env server2_sender (body_subject req) (body_text req) html
                                   (d_name d, d_email d, d_company d)) inserted) s3")
  then show ?thesis
    using assms cs
    by (simp add: server2_get_unique_emails_def server2_try_block_def comp_def messages_built)
qed







section \<open>Validation\<close>

text \<open>
  The four checks of the multi-campaign handler, in order: each failing check answers
  400 at once, and the process state, the store and the mailer are left untouched.
\<close>

lemma validation_fail_fast:
  "(header (hdr_campaign req) = None \<longrightarrow>
      get_unique_emails env req w = ([Respond (bad_request ''Missing campaign header'')], w))
 \<and> (header (hdr_campaign req) \<noteq> None
      \<and> (header (hdr_user_id req) = None \<or> header (hdr_conversation_id req) = None) \<longrightarrow>
      get_unique_emails env req w =
        ([Respond (bad_request ''Missing user_id or conversation_id in headers'')], w))
 \<and> (header (hdr_campaign req) = Some campaign
      \<and> header (hdr_user_id req) \<noteq> None \<and> header (hdr_conversation_id req) \<noteq> None
      \<and> js_get (map_of CAMPAIGNS) campaign = Absent \<longrightarrow>
      get_unique_emails env req w =
        ([Respond (bad_request ''Invalid campaign! Please enter the correct campaign.'')], w))
 \<and> (header (hdr_campaign req) = Some campaign
      \<and> header (hdr_user_id req) \<noteq> None \<and> header (hdr_conversation_id req) \<noteq> None
      \<and> js_get (map_of CAMPAIGNS) campaign \<noteq> Absent
      \<and> (\<forall>c cs. body_contacts req \<noteq> JArr (c # cs)) \<longrightarrow>
      get_unique_emails env req w =
        ([Respond (bad_request ''Request must include an array of contacts'')], w))"
  by (cases "js_get (map_of CAMPAIGNS) campaign")
     (auto simp: get_unique_emails_def try_block_def
       split: option.splits jsval.splits list.splits)

text \<open>A campaign value the registry does not hold is rejected when no object has it.\<close>

lemma unknown_campaign_absent:
  "map_of CAMPAIGNS campaign = None \<Longrightarrow> campaign \<notin> set Object_prototype \<Longrightarrow>
     js_get (map_of CAMPAIGNS) campaign = Absent"
  by (simp add: js_get_def)

text \<open>
  Every name inherited from \<open>Object.prototype\<close> passes the campaign check of a process
  that has served no request yet: the request is answered 500, and nothing is created.
\<close>

lemma inherited_not_registered:
  "k \<in> set Object_prototype \<Longrightarrow> map_of CAMPAIGNS k = None"
  using registered_not_inherited [of k] by (cases "map_of CAMPAIGNS k") auto

lemma inherited_campaign_500:
  assumes "hdr_campaign req = Some k" and "k \<in> set Object_prototype"
    and "header (hdr_user_id req) = Some uid"
    and "header (hdr_conversation_id req) = Some cid"
    and "body_contacts req = JArr (c # cs)"
  shows "get_unique_emails env req (empty_world s) =
           ([Respond \<lparr>status = 500, body = JObj [(''error'', JStr ''Internal server error'')]\<rparr>],
            empty_world s)"
proof -
  have k: "k \<noteq> []"
    using assms(2) by (auto simp: Object_prototype_def)
  have g: "js_get (map_of CAMPAIGNS) k = Inherited k"
    using assms(2) by (simp add: js_get_def inherited_not_registered)
  have mc: "js_get (modelCache (empty_world s)) k = Inherited k"
    using assms(2) by (simp add: js_get_def empty_world_def)
  show ?thesis
    using assms(1,3,4,5) k g mc
    by (simp add: get_unique_emails_def try_block_def pipeline_def getContactModel_def
        on_error_def split: option.splits)
qed

text \<open>
  C2. The campaign value \<open>constructor\<close> is not a key of the registry, and a request that
  carries it with both identity headers and one contact passes the campaign check, since
  \<open>CAMPAIGNS["constructor"]\<close> is the inherited \<open>Object\<close> function. The handler then takes
  the same inherited value out of the model cache, fails on \<open>Contact.find\<close>, and answers
  500 instead of 400. No connection is created and no cache entry is added.
\<close>

theorem inherited_name_passes_campaign_check:
  "map_of CAMPAIGNS ''constructor'' = None
   \<and> get_unique_emails env (ex_request\<lparr>hdr_campaign := Some ''constructor''\<rparr>) (empty_world s) =
       ([Respond \<lparr>status = 500, body = JObj [(''error'', JStr ''Internal server error'')]\<rparr>],
        empty_world s)"
  by (simp add: CAMPAIGNS_def get_unique_emails_def try_block_def pipeline_def
      getContactModel_def js_get_def Object_prototype_def empty_world_def ex_request_def
      on_error_def)


section \<open>The single-store handler after a successful insert\<close>

text \<open>
  After an insert that resolved, and the sends of a text that converts to a string, the
  single-store handler sends no response at all.
\<close>

lemma server2_no_success_response:
  assumes "header (hdr_user_id req) = Some uid"
    and "header (hdr_conversation_id req) = Some cid"
    and "body_contacts req = JArr contacts" and "contacts \<noteq> []"
    and "those (map get_email contacts) = Some q"
    and "Contact_find env (server2_db env) q s = (Inr ex, s2)"
    and "newContacts uid cid (map d_email ex) contacts \<noteq> []"
    and "Contact_insertMany env (server2_db env)
           (newContacts uid cid (map d_email ex) contacts) False s2 = (Inr inserted, s3)"
    and "template env (body_text req) = Some html"
  shows "responses (fst (server2_get_unique_emails env req s)) = []"
proof -
  from server2_inserted [OF assms] obtain sends s4 where
    d: "dispatch env (map (\<lambda>d. mk_msg env server2_sender (body_subject req) (body_text req) html
                                   (d_name d, d_email d, d_company d)) inserted) s3 = (sends, s4)"
    and r: "server2_get_unique_emails env req s =
            ([Find (server2_db env) q,
              InsertMany (server2_db env) (newContacts uid cid (map d_email ex) contacts) False]
             @ sends, s4)"
    by blast
  from dispatch_events [OF d] r show ?thesis
    by (simp add: responses_append)
qed

text \<open>
  C3. In \<open>server2.js\<close> a valid request with two new contacts, whose batch insert succeeds
  and whose two notifications are sent, gets no response: the events of the request are
  the query, the insert and the two sends, and the handler returns without calling
  \<open>res\<close>. The multi-campaign handler answers the same request with 200, a message, the
  inserted count and the campaign, after the sends.
\<close>

theorem server2_success_without_response:
  "server2_get_unique_emails ex_env ex_request no_docs =
     ([Find (Conn 0 ''mongodb://db.example'') [JStr ''Ann@x.com'', JStr ''bob@x.com''],
       InsertMany (Conn 0 ''mongodb://db.example'')
         [[(''email'', JStr ''Ann@x.com''), (''user_id'', JStr ''u1''),
           (''conversation_id'', JStr ''c1'')],
          [(''email'', JStr ''bob@x.com''), (''user_id'', JStr ''u1''),
           (''conversation_id'', JStr ''c1'')]] False,
       Send \<lparr>m_to = ''ann@x.com'', m_from = server2_sender, m_subject = JStr ''Hi'',
              m_text = JStr ''Hello'', m_html = ''Hello''\<rparr> None,
       Send \<lparr>m_to = ''bob@x.com'', m_from = server2_sender, m_subject = JStr ''Hi'',
              m_text = JStr ''Hello'', m_html = ''Hello''\<rparr> None],
      no_docs(''mongodb://db.example'' :=
         [\<lparr>d_user_id = Some ''u1'', d_conversation_id = Some ''c1'', d_name = None,
            d_email = ''Ann@x.com'', d_company = None\<rparr>,
          \<lparr>d_user_id = Some ''u1'', d_conversation_id = Some ''c1'', d_name = None,
            d_email = ''bob@x.com'', d_company = None\<rparr>]))
   \<and> responses (fst (server2_get_unique_emails ex_env ex_request no_docs)) = []
   \<and> responses (fst (get_unique_emails ex_env ex_request ex_world)) =
       [\<lparr>status = 200,
         body = JObj [(''message'', JStr ''Successfully processed for campaign: campaign1''),
                      (''inserted'', JNum 2), (''campaign'', JStr ''campaign1'')]\<rparr>]"
proof -
  have "server2_get_unique_emails ex_env ex_request no_docs =
     ([Find (Conn 0 ''mongodb://db.example'') [JStr ''Ann@x.com'', JStr ''bob@x.com''],
       InsertMany (Conn 0 ''mongodb://db.example'')
         [[(''email'', JStr ''Ann@x.com''), (''user_id'', JStr ''u1''),
           (''conversation_id'', JStr ''c1'')],
          [(''email'', JStr ''bob@x.com''), (''user_id'', JStr ''u1''),
           (''conversation_id'', JStr ''c1'')]] False,
       Send \<lparr>m_to = ''ann@x.com'', m_from = server2_sender, m_subject = JStr ''Hi'',
              m_text = JStr ''Hello'', m_html = ''Hello''\<rparr> None,
       Send \<lparr>m_to = ''bob@x.com'', m_from = server2_sender, m_subject = JStr ''Hi'',
              m_text = JStr ''Hello'', m_html = ''Hello''\<rparr> None],
      no_docs(''mongodb://db.example'' :=
         [\<lparr>d_user_id = Some ''u1'', d_conversation_id = Some ''c1'', d_name = None,
            d_email = ''Ann@x.com'', d_company = None\<rparr>,
          \<lparr>d_user_id = Some ''u1'', d_conversation_id = Some ''c1'', d_name = None,
            d_email = ''bob@x.com'', d_company = None\<rparr>]))"
    by (simp add: server2_get_unique_emails_def server2_try_block_def server2_db_def
        ex_request_def newContacts_def augment_def Set_has_def mk_msg_def messages_def template_def
        ex_env_sel find_ref_def insertMany_ref_def hydrate_def str_field_def
        lower_char_def upper_case_def no_docs_def Let_def)
  then show ?thesis
    by (simp add: ex_run)
qed

section \<open>The store calls of a request with a new contact\<close>

lemma store_calls_append: "store_calls (xs @ ys) = store_calls xs @ store_calls ys"
  by (induction xs rule: store_calls.induct) simp_all

lemma dispatch_store_calls:
  "dispatch env ms s = (evs, s') \<Longrightarrow> store_calls evs = []"
proof (induction ms arbitrary: s evs s')
  case Nil
  then show ?case by simp
next
  case (Cons m ms)
  obtain r s1 where send: "sgMail_send env m s = (r, s1)"
    by (cases "sgMail_send env m s")
  obtain evs1 s2 where rest: "dispatch env ms s1 = (evs1, s2)"
    by (cases "dispatch env ms s1")
  from Cons.prems send rest have "evs = Send m r # evs1"
    by simp
  with Cons.IH [OF rest] show ?case
    by simp
qed

text \<open>What every send keeps, the dispatch keeps.\<close>

lemma dispatch_preserves:
  assumes "\<forall>mail s r s'. sgMail_send env mail s = (r, s') \<longrightarrow> P s \<longrightarrow> P s'"
    and "dispatch env ms s = (evs, s')" and "P s"
  shows "P s'"
  using assms(2,3)
proof (induction ms arbitrary: s evs s')
  case Nil
  then show ?case by simp
next
  case (Cons m ms)
  obtain r s1 where send: "sgMail_send env m s = (r, s1)"
    by (cases "sgMail_send env m s")
  obtain evs1 s2 where rest: "dispatch env ms s1 = (evs1, s2)"
    by (cases "dispatch env ms s1")
  from Cons.prems(1) send rest have s2: "s2 = s'"
    by simp
  from assms(1) send Cons.prems(2) have "P s1"
    by blast
  from Cons.IH [OF rest this] s2 show ?case
    by simp
qed

text \<open>
  A contact whose email is the email of no record the query returned is among the new
  contacts, and when that holds of every contact, the new contacts are all the contacts.
\<close>

lemma new_contact_kept:
  assumes "those (map get_email contacts) = Some q"
    and "c \<in> set contacts"
    and "get_email c \<notin> set (map (\<lambda>d. Some (JStr (d_email d))) (ex :: doc list))"
  shows "augment uid cid c \<in> set (newContacts uid cid (map d_email ex) contacts)"
  using assms(2,3) by (simp add: newContacts_spec [OF assms(1)] spec_newContacts_def)


text \<open>
  Once there is a new contact, the store is called twice, for the query and for one
  unordered insert of the new contacts; whatever the insert settles to, what follows is
  at most the dispatch, from the state the insert left.
\<close>

lemma pipeline_store:
  assumes "getContactModel env campaign w = (Inr (Own m), w1)"
    and "those (map get_email contacts) = Some q"
    and "Contact_find env (model_conn m) q (services w1) = (Inr ex, s2)"
    and "newContacts uid cid (map d_email ex) contacts \<noteq> []"
    and "Contact_insertMany env (model_conn m)
           (newContacts uid cid (map d_email ex) contacts) False s2 = (res, s3)"
  shows "\<exists>r rest msgs sends s4.
           pipeline env campaign uid cid contacts subj tx w =
             (r,
              Find (model_conn m) q
              # InsertMany (model_conn m) (newContacts uid cid (map d_email ex) contacts) False
              # rest,
              w1\<lparr>services := s4\<rparr>)
         \<and> store_calls rest = []
         \<and> dispatch env msgs s3 = (sends, s4)"
proof (cases res)
  case (Inl e)
  with assms have "pipeline env campaign uid cid contacts subj tx w =
             (Inl e,
              Find (model_conn m) q
              # InsertMany (model_conn m) (newContacts uid cid (map d_email ex) contacts) False
              # [],
              w1\<lparr>services := s3\<rparr>)
         \<and> store_calls [] = []
         \<and> dispatch env [] s3 = ([], s3)"
    by (simp add: pipeline_def)
  then show ?thesis
    by blast
next
  case (Inr inserted)
  show ?thesis
  proof (cases "messages env campaign_sender subj tx
                  (map (\<lambda>d. (d_name d, d_email d, d_company d)) inserted)")
    case None
    with assms Inr have "pipeline env campaign uid cid contacts subj tx w =
             (Inl TypeError,
              Find (model_conn m) q
              # InsertMany (model_conn m) (newContacts uid cid (map d_email ex) contacts) False
              # [],
              w1\<lparr>services := s3\<rparr>)
         \<and> store_calls [] = []
         \<and> dispatch env [] s3 = ([], s3)"
      by (simp add: pipeline_def)
    then show ?thesis
      by blast
  next
    case (Some msgs)
    obtain sends s4 where d: "dispatch env msgs s3 = (sends, s4)"
      by (cases "dispatch env msgs s3")
    let ?resp = "Respond \<lparr>status = 200,
                  body = JObj [(''message'', JStr (''Successfully processed for campaign: '' @ campaign)),
                               (''inserted'', JNum (int (length inserted))),
                               (''campaign'', JStr campaign)]\<rparr>"
    from dispatch_store_calls [OF d] have "store_calls (sends @ [?resp]) = []"
      by (simp add: store_calls_append)
    moreover from assms Inr Some d
    have "pipeline env campaign uid cid contacts subj tx w =
             (Inr (),
              Find (model_conn m) q
              # InsertMany (model_conn m) (newContacts uid cid (map d_email ex) contacts) False
              # (sends @ [?resp]),
              w1\<lparr>services := s4\<rparr>)"
      by (simp add: pipeline_def)
    ultimately show ?thesis
      using d by blast
  qed
qed

lemma server2_store:
  assumes "header (hdr_user_id req) = Some uid"
    and "header (hdr_conversation_id req) = Some cid"
    and "body_contacts req = JArr contacts" and "contacts \<noteq> []"
    and "those (map get_email contacts) = Some q"
    and "Contact_find env (server2_db env) q s = (Inr ex, s2)"
    and "newContacts uid cid (map d_email ex) contacts \<noteq> []"
    and "Contact_insertMany env (server2_db env)
           (newContacts uid cid (map d_email ex) contacts) False s2 = (res, s3)"
  shows "\<exists>r rest msgs sends s4.
           server2_try_block env req s =
             (r,
              Find (server2_db env) q
              # InsertMany (server2_db env) (newContacts uid cid (map d_email ex) contacts) False
              # rest,
              s4)
         \<and> store_calls rest = []
         \<and> dispatch env msgs s3 = (sends, s4)"
proof -
  obtain c cs where cs: "contacts = c # cs"
    using assms(4) by (cases contacts) auto
  show ?thesis
  proof (cases res)
    case (Inl e)
    with assms cs have "server2_try_block env req s =
               (Inl e,
                Find (server2_db env) q
                # InsertMany (server2_db env) (newContacts uid cid (map d_email ex) contacts) False
                # [],
                s3)
           \<and> store_calls [] = []
           \<and> dispatch env [] s3 = ([], s3)"
      by (simp add: server2_try_block_def)
    then show ?thesis
      by blast
  next
    case (Inr inserted)
    show ?thesis
    proof (cases "messages env server2_sender (body_subject req) (body_text req)
                    (map (\<lambda>d. (d_name d, d_email d, d_company d)) inserted)")
      case None
      with assms cs Inr have "server2_try_block env req s =
               (Inl TypeError,
                Find (server2_db env) q
                # InsertMany (server2_db env) (newContacts uid cid (map d_email ex) contacts) False
                # [],
                s3)
           \<and> store_calls [] = []
           \<and> dispatch env [] s3 = ([], s3)"
        by (simp add: server2_try_block_def)
      then show ?thesis
        by blast
    next
      case (Some msgs)
      obtain sends s4 where d: "dispatch env msgs s3 = (sends, s4)"
        by (cases "dispatch env msgs s3")
      from assms cs Inr Some d
      have "server2_try_block env req s =
               (Inr (),
                Find (server2_db env) q
                # InsertMany (server2_db env) (newContacts uid cid (map d_email ex) contacts) False
                # sends,
                s4)"
        by (simp add: server2_try_block_def)
      with dispatch_store_calls [OF d] d show ?thesis
        by blast
    qed
  qed
qed

lemma handler_state:
  "snd (get_unique_emails env req w) = snd (snd (try_block env req w))"
  by (simp add: get_unique_emails_def split: prod.splits sum.splits)

lemma handler_store_calls:
  "store_calls (fst (get_unique_emails env req w)) = store_calls (fst (snd (try_block env req w)))"
  by (simp add: get_unique_emails_def store_calls_append split: prod.splits sum.splits)

lemma server2_handler_state:
  "snd (server2_get_unique_emails env req s) = snd (snd (server2_try_block env req s))"
  by (simp add: server2_get_unique_emails_def split: prod.splits sum.splits)

lemma server2_handler_store_calls:
  "store_calls (fst (server2_get_unique_emails env req s))
     = store_calls (fst (snd (server2_try_block env req s)))"
  by (simp add: server2_get_unique_emails_def store_calls_append split: prod.splits sum.splits)

text \<open>
  C5. Both handlers hand the new contacts to the store in one batch whose flag \<open>ordered\<close>
  is false, and call the store for nothing else but the query before it: there is no
  second insert, no retry and no rollback, whatever the insert settles to. Hence, for
  every store whose unordered insert leaves in the collection every record of the batch
  that the store accepts (also when the insert is rejected, because another record of
  the batch failed) and every mail provider whose send removes nothing from the store: a
  new contact that the store accepts is in the collection when the request is over. When
  the insert is rejected, the handler does nothing more than answer with the response of
  its \<open>catch\<close> block, which for the code 11000 of a duplicate key is 201 with an empty
  array, and the store stays as the insert left it.
\<close>

theorem unordered_insert_is_not_aborted:
  fixes present :: "'s \<Rightarrow> conn \<Rightarrow> jsobj \<Rightarrow> bool" and accepts :: "jsobj \<Rightarrow> bool"
  assumes "header (hdr_user_id req) = Some user_id"
    and "header (hdr_conversation_id req) = Some conversation_id"
    and "body_contacts req = JArr contacts" and "contacts \<noteq> []"
    and "those (map get_email contacts) = Some incomingEmails"
    and "c \<in> set contacts" and "accepts (augment user_id conversation_id c)"
    and "\<forall>db objs s r s'. Contact_insertMany env db objs False s = (r, s')
           \<longrightarrow> (\<forall>obj \<in> set objs. accepts obj \<longrightarrow> present s' db obj)"
    and "\<forall>db obj mail s r s'. sgMail_send env mail s = (r, s')
           \<longrightarrow> present s db obj \<longrightarrow> present s' db obj"
  shows "(\<forall>campaign dbName m w w1 existingDocs s2.
            header (hdr_campaign req) = Some campaign \<and> map_of CAMPAIGNS campaign = Some dbName
          \<and> getContactModel env campaign w = (Inr (Own m), w1)
          \<and> Contact_find env (model_conn m) incomingEmails (services w1) = (Inr existingDocs, s2)
          \<and> get_email c \<notin> set (map (\<lambda>d. Some (JStr (d_email d))) existingDocs)
          \<longrightarrow> augment user_id conversation_id c
                 \<in> set (newContacts user_id conversation_id (map d_email existingDocs) contacts)
            \<and> store_calls (fst (get_unique_emails env req w)) =
                [Find (model_conn m) incomingEmails,
                 InsertMany (model_conn m)
                   (newContacts user_id conversation_id (map d_email existingDocs) contacts) False]
            \<and> present (services (snd (get_unique_emails env req w))) (model_conn m)
                (augment user_id conversation_id c)
            \<and> (\<forall>err s3.
                  Contact_insertMany env (model_conn m)
                    (newContacts user_id conversation_id (map d_email existingDocs) contacts)
                    False s2 = (Inl err, s3)
                  \<longrightarrow> get_unique_emails env req w =
                        ([Find (model_conn m) incomingEmails,
                          InsertMany (model_conn m)
                            (newContacts user_id conversation_id (map d_email existingDocs) contacts)
                            False,
                          Respond (on_error err)],
                         w1\<lparr>services := s3\<rparr>)))
       \<and> (\<forall>s existingDocs s2.
            Contact_find env (server2_db env) incomingEmails s = (Inr existingDocs, s2)
          \<and> get_email c \<notin> set (map (\<lambda>d. Some (JStr (d_email d))) existingDocs)
          \<longrightarrow> augment user_id conversation_id c
                 \<in> set (newContacts user_id conversation_id (map d_email existingDocs) contacts)
            \<and> store_calls (fst (server2_get_unique_emails env req s)) =
                [Find (server2_db env) incomingEmails,
                 InsertMany (server2_db env)
                   (newContacts user_id conversation_id (map d_email existingDocs) contacts) False]
            \<and> present (snd (server2_get_unique_emails env req s)) (server2_db env)
                (augment user_id conversation_id c)
            \<and> (\<forall>err s3.
                  Contact_insertMany env (server2_db env)
                    (newContacts user_id conversation_id (map d_email existingDocs) contacts)
                    False s2 = (Inl err, s3)
                  \<longrightarrow> server2_get_unique_emails env req s =
                        ([Find (server2_db env) incomingEmails,
                          InsertMany (server2_db env)
                            (newContacts user_id conversation_id (map d_email existingDocs) contacts)
                            False,
                          Respond (on_error err)],
                         s3)))"
proof -
  let ?c = "augment user_id conversation_id c"
  have multi:
    "?c \<in> set (newContacts user_id conversation_id (map d_email existingDocs) contacts)
     \<and> store_calls (fst (get_unique_emails env req w)) =
         [Find (model_conn m) incomingEmails,
          InsertMany (model_conn m)
            (newContacts user_id conversation_id (map d_email existingDocs) contacts) False]
     \<and> present (services (snd (get_unique_emails env req w))) (model_conn m) ?c
     \<and> (\<forall>err s3.
           Contact_insertMany env (model_conn m)
             (newContacts user_id conversation_id (map d_email existingDocs) contacts)
             False s2 = (Inl err, s3)
           \<longrightarrow> get_unique_emails env req w =
                 ([Find (model_conn m) incomingEmails,
                   InsertMany (model_conn m)
                     (newContacts user_id conversation_id (map d_email existingDocs) contacts)
                     False,
                   Respond (on_error err)],
                  w1\<lparr>services := s3\<rparr>))"
    if hc: "header (hdr_campaign req) = Some campaign"
      and reg: "map_of CAMPAIGNS campaign = Some dbName"
      and gcm: "getContactModel env campaign w = (Inr (Own m), w1)"
      and fnd: "Contact_find env (model_conn m) incomingEmails (services w1) = (Inr existingDocs, s2)"
      and fresh: "get_email c \<notin> set (map (\<lambda>d. Some (JStr (d_email d))) existingDocs)"
    for campaign dbName m w w1 existingDocs s2
  proof -
    let ?nc = "newContacts user_id conversation_id (map d_email existingDocs) contacts"
    have mem: "?c \<in> set ?nc"
      using new_contact_kept [OF assms(5,6) fresh] .
    then have ne: "?nc \<noteq> []"
      by auto
    obtain res s3 where ins: "Contact_insertMany env (model_conn m) ?nc False s2 = (res, s3)"
      by (cases "Contact_insertMany env (model_conn m) ?nc False s2")
    have tb: "try_block env req w =
        pipeline env campaign user_id conversation_id contacts (body_subject req) (body_text req) w"
      by (rule try_block_valid [OF hc assms(1,2) reg assms(3,4)])
    from pipeline_store [where subj = "body_subject req" and tx = "body_text req",
        OF gcm assms(5) fnd ne ins]
    obtain r rest msgs sends s4 where
      p: "pipeline env campaign user_id conversation_id contacts (body_subject req) (body_text req) w =
             (r, Find (model_conn m) incomingEmails # InsertMany (model_conn m) ?nc False # rest,
              w1\<lparr>services := s4\<rparr>)"
      and sc: "store_calls rest = []"
      and d: "dispatch env msgs s3 = (sends, s4)"
      by blast
    have calls: "store_calls (fst (get_unique_emails env req w)) =
         [Find (model_conn m) incomingEmails, InsertMany (model_conn m) ?nc False]"
      using sc by (simp add: handler_store_calls tb p)
    from assms(8) ins mem assms(7) have "present s3 (model_conn m) ?c"
      by blast
    with assms(9) d have "present s4 (model_conn m) ?c"
      using dispatch_preserves [where P = "\<lambda>s. present s (model_conn m) ?c"] by blast
    then have there: "present (services (snd (get_unique_emails env req w))) (model_conn m) ?c"
      by (simp add: handler_state tb p)
    have rejected: "get_unique_emails env req w =
                 ([Find (model_conn m) incomingEmails, InsertMany (model_conn m) ?nc False,
                   Respond (on_error err)],
                  w1\<lparr>services := s3'\<rparr>)"
      if "Contact_insertMany env (model_conn m) ?nc False s2 = (Inl err, s3')" for err s3'
      using that gcm assms(5) fnd ne
      by (simp add: get_unique_emails_def tb pipeline_def)
    from mem calls there rejected show ?thesis
      by blast
  qed
  have single:
    "?c \<in> set (newContacts user_id conversation_id (map d_email existingDocs) contacts)
     \<and> store_calls (fst (server2_get_unique_emails env req s)) =
         [Find (server2_db env) incomingEmails,
          InsertMany (server2_db env)
            (newContacts user_id conversation_id (map d_email existingDocs) contacts) False]
     \<and> present (snd (server2_get_unique_emails env req s)) (server2_db env) ?c
     \<and> (\<forall>err s3.
           Contact_insertMany env (server2_db env)
             (newContacts user_id conversation_id (map d_email existingDocs) contacts)
             False s2 = (Inl err, s3)
           \<longrightarrow> server2_get_unique_emails env req s =
                 ([Find (server2_db env) incomingEmails,
                   InsertMany (server2_db env)
                     (newContacts user_id conversation_id (map d_email existingDocs) contacts)
                     False,
                   Respond (on_error err)],
                  s3))"
    if fnd: "Contact_find env (server2_db env) incomingEmails s = (Inr existingDocs, s2)"
      and fresh: "get_email c \<notin> set (map (\<lambda>d. Some (JStr (d_email d))) existingDocs)"
    for s existingDocs s2
  proof -
    let ?nc = "newContacts user_id conversation_id (map d_email existingDocs) contacts"
    have mem: "?c \<in> set ?nc"
      using new_contact_kept [OF assms(5,6) fresh] .
    then have ne: "?nc \<noteq> []"
      by auto
    obtain c0 cs where cs: "contacts = c0 # cs"
      using assms(4) by (cases contacts) auto
    obtain res s3 where ins: "Contact_insertMany env (server2_db env) ?nc False s2 = (res, s3)"
      by (cases "Contact_insertMany env (server2_db env) ?nc False s2")
    from server2_store [OF assms(1,2,3,4,5) fnd ne ins]
    obtain r rest msgs sends s4 where
      tb: "server2_try_block env req s =
             (r, Find (server2_db env) incomingEmails # InsertMany (server2_db env) ?nc False # rest,
              s4)"
      and sc: "store_calls rest = []"
      and d: "dispatch env msgs s3 = (sends, s4)"
      by blast
    have calls: "store_calls (fst (server2_get_unique_emails env req s)) =
         [Find (server2_db env) incomingEmails, InsertMany (server2_db env) ?nc False]"
      using sc by (simp add: server2_handler_store_calls tb)
    from assms(8) ins mem assms(7) have "present s3 (server2_db env) ?c"
      by blast
    with assms(9) d have "present s4 (server2_db env) ?c"
      using dispatch_preserves [where P = "\<lambda>s. present s (server2_db env) ?c"] by blast
    then have there: "present (snd (server2_get_unique_emails env req s)) (server2_db env) ?c"
      by (simp add: server2_handler_state tb)
    have rejected: "server2_get_unique_emails env req s =
                 ([Find (server2_db env) incomingEmails, InsertMany (server2_db env) ?nc False,
                   Respond (on_error err)],
                  s3')"
      if "Contact_insertMany env (server2_db env) ?nc False s2 = (Inl err, s3')" for err s3'
      using that assms(1,2,3,5) cs fnd ne
      by (simp add: server2_get_unique_emails_def server2_try_block_def)
    from mem calls there rejected show ?thesis
      by blast
  qed
  from multi single show ?thesis
    by blast
qed

section \<open>The reference store under a batch insert\<close>

lemma insert_unordered_emails:
  "insert_unordered coll ds = (coll', n) \<Longrightarrow>
     set (map d_email coll') = set (map d_email coll) \<union> set (map d_email ds)"
proof (induction ds arbitrary: coll coll' n)
  case Nil
  then show ?case by simp
next
  case (Cons d ds)
  show ?case
  proof (cases "d_email d \<in> set (map d_email coll)")
    case True
    obtain c1 n1 where r: "insert_unordered coll ds = (c1, n1)"
      by (cases "insert_unordered coll ds")
    with Cons.prems True have "coll' = c1"
      by simp
    with Cons.IH [OF r] True show ?thesis
      by auto
  next
    case False
    with Cons.prems have "insert_unordered (coll @ [d]) ds = (coll', n)"
      by simp
    from Cons.IH [OF this] show ?thesis
      by auto
  qed
qed

text \<open>The unordered insert of the reference store loses no valid record.\<close>

lemma insertMany_ref_unordered_emails:
  assumes "insertMany_ref False objs coll = (r, coll')"
    and "obj \<in> set objs" and "hydrate obj = Some d"
  shows "d_email d \<in> set (map d_email coll')"
proof -
  obtain c1 n where i: "insert_unordered coll (List.map_filter hydrate objs) = (c1, n)"
    by (cases "insert_unordered coll (List.map_filter hydrate objs)")
  with assms(1) have "coll' = c1"
    by (simp add: insertMany_ref_def Let_def split: if_splits)
  moreover from assms(2,3) have "d \<in> set (List.map_filter hydrate objs)"
    by (force simp: map_filter_def)
  ultimately show ?thesis
    using insert_unordered_emails [OF i] by auto
qed

text \<open>
  The flag decides: on a collection that holds the first record's email already, the
  unordered insert still writes the second record and the ordered insert does not.
\<close>

lemma ordered_flag_matters:
  "insertMany_ref False
     [[(''email'', JStr ''Ann@x.com'')], [(''email'', JStr ''bob@x.com'')]] [ann_doc] =
     (Inl duplicate_key,
      [ann_doc,
       \<lparr>d_user_id = None, d_conversation_id = None, d_name = None,
         d_email = ''bob@x.com'', d_company = None\<rparr>])
   \<and> insertMany_ref True
     [[(''email'', JStr ''Ann@x.com'')], [(''email'', JStr ''bob@x.com'')]] [ann_doc] =
     (Inl duplicate_key, [ann_doc])"
  by (simp add: insertMany_ref_def hydrate_def str_field_def ann_doc_def Let_def)

text \<open>
  The reference store and mailer meet the two hypotheses: the unordered insert leaves a
  document for every record it accepts, and a send does not touch the store.
\<close>

lemma ref_unordered_insert:
  "\<forall>db objs s r s'.
     Contact_insertMany (ref_env uri concurrent undeliverable) db objs False s = (r, s')
     \<longrightarrow> (\<forall>obj \<in> set objs. accepts_ref obj \<longrightarrow> present_ref s' db obj)"
proof (intro allI impI ballI)
  fix db objs r obj and s s' :: "string \<Rightarrow> doc list"
  assume call: "Contact_insertMany (ref_env uri concurrent undeliverable) db objs False s = (r, s')"
    and obj: "obj \<in> set objs" and acc: "accepts_ref obj"
  obtain res coll' where i: "insertMany_ref False objs (s (conn_uri db)) = (res, coll')"
    by (cases "insertMany_ref False objs (s (conn_uri db))")
  with call have s': "s' = s(conn_uri db := coll')"
    by (simp add: ref_env_sel)
  from acc obtain d where d: "hydrate obj = Some d"
    by (auto simp: accepts_ref_def)
  from insertMany_ref_unordered_emails [OF i obj d] show "present_ref s' db obj"
    by (simp add: present_ref_def d s')
qed

lemma ref_send_keeps_store:
  "\<forall>db obj mail s r s'.
     sgMail_send (ref_env uri concurrent undeliverable) mail s = (r, s')
     \<longrightarrow> present_ref s db obj \<longrightarrow> present_ref s' db obj"
  by (auto simp: ref_env_sel)

lemma ref_model:
  "getContactModel (ref_env ''mongodb://db.example'' concurrent undeliverable) ''campaign1''
     (empty_world s) =
     (Inr (Own (Model (Conn 0 ex_uri))),
      \<lparr>connections = [''campaign1'' \<mapsto> Conn 0 ex_uri],
       modelCache = [''campaign1'' \<mapsto> Model (Conn 0 ex_uri)],
       mongoose_connections = [Conn 0 ex_uri], services = s\<rparr>)"
  by (simp add: getContactModel_def js_get_missing [OF campaign1_registered] js_get_own
      getCampaignConnection_miss [OF campaign1_registered] empty_world_def
      ref_env_sel ex_uri_def)

lemmas race_env_sel =
  ref_env_sel [of "''mongodb://db.example''" ann_races "\<lambda>m. False", folded race_env_def]

text \<open>
  The race: the query finds none of the two contacts, another request stores the first,
  and the insert of the batch fails on the first record and writes the second.
\<close>

lemma race_run:
  "get_unique_emails race_env ex_request ex_world =
     ([Find (Conn 0 ex_uri) [JStr ''Ann@x.com'', JStr ''bob@x.com''],
       InsertMany (Conn 0 ex_uri)
         [[(''email'', JStr ''Ann@x.com''), (''user_id'', JStr ''u1''),
           (''conversation_id'', JStr ''c1'')],
          [(''email'', JStr ''bob@x.com''), (''user_id'', JStr ''u1''),
           (''conversation_id'', JStr ''c1'')]] False,
       Respond \<lparr>status = 201, body = JArr []\<rparr>],
      \<lparr>connections = [''campaign1'' \<mapsto> Conn 0 ex_uri],
       modelCache = [''campaign1'' \<mapsto> Model (Conn 0 ex_uri)],
       mongoose_connections = [Conn 0 ex_uri],
       services = (ann_races no_docs)(ex_uri :=
         [ann_doc,
          \<lparr>d_user_id = Some ''u1'', d_conversation_id = Some ''c1'', d_name = None,
            d_email = ''bob@x.com'', d_company = None\<rparr>])\<rparr>)"
  unfolding ex_world_def
  by (simp add: get_unique_emails_def try_block_def pipeline_def
      ref_model [of ann_races "\<lambda>m. False", folded race_env_def]
      js_get_registered [OF campaign1_registered] ex_request_def
      newContacts_def augment_def Set_has_def on_error_def duplicate_key_def
      race_env_sel find_ref_def insertMany_ref_def hydrate_def str_field_def
      no_docs_def ann_races_def ann_doc_def Let_def)

theorem unordered_insert_is_not_aborted_witness:
  "store_calls (fst (get_unique_emails race_env ex_request ex_world)) =
     [Find (Conn 0 ex_uri) [JStr ''Ann@x.com'', JStr ''bob@x.com''],
      InsertMany (Conn 0 ex_uri)
        [[(''email'', JStr ''Ann@x.com''), (''user_id'', JStr ''u1''),
          (''conversation_id'', JStr ''c1'')],
         [(''email'', JStr ''bob@x.com''), (''user_id'', JStr ''u1''),
          (''conversation_id'', JStr ''c1'')]] False]
   \<and> present_ref (services (snd (get_unique_emails race_env ex_request ex_world))) (Conn 0 ex_uri)
       [(''email'', JStr ''bob@x.com''), (''user_id'', JStr ''u1''),
        (''conversation_id'', JStr ''c1'')]
   \<and> fst (get_unique_emails race_env ex_request ex_world) =
     [Find (Conn 0 ex_uri) [JStr ''Ann@x.com'', JStr ''bob@x.com''],
      InsertMany (Conn 0 ex_uri)
        [[(''email'', JStr ''Ann@x.com''), (''user_id'', JStr ''u1''),
          (''conversation_id'', JStr ''c1'')],
         [(''email'', JStr ''bob@x.com''), (''user_id'', JStr ''u1''),
          (''conversation_id'', JStr ''c1'')]] False,
      Respond \<lparr>status = 201, body = JArr []\<rparr>]"
proof -
  let ?bob = "JObj [(''email'', JStr ''bob@x.com'')]"
  let ?cs = "[JObj [(''email'', JStr ''Ann@x.com''), (''user_id'', JStr ''intruder'')], ?bob]"
  let ?q = "[JStr ''Ann@x.com'', JStr ''bob@x.com'']"
  let ?nc = "[[(''email'', JStr ''Ann@x.com''), (''user_id'', JStr ''u1''),
             (''conversation_id'', JStr ''c1'')],
            [(''email'', JStr ''bob@x.com''), (''user_id'', JStr ''u1''),
             (''conversation_id'', JStr ''c1'')]]"
  let ?w1 = "\<lparr>connections = [''campaign1'' \<mapsto> Conn 0 ex_uri],
       modelCache = [''campaign1'' \<mapsto> Model (Conn 0 ex_uri)],
       mongoose_connections = [Conn 0 ex_uri], services = no_docs\<rparr>"
  let ?s3 = "(ann_races no_docs)(ex_uri :=
         [ann_doc,
          \<lparr>d_user_id = Some ''u1'', d_conversation_id = Some ''c1'', d_name = None,
            d_email = ''bob@x.com'', d_company = None\<rparr>])"
  have hc: "header (hdr_campaign ex_request) = Some ''campaign1''"
    and h1: "header (hdr_user_id ex_request) = Some ''u1''"
    and h2: "header (hdr_conversation_id ex_request) = Some ''c1''"
    and h3: "body_contacts ex_request = JArr ?cs"
    and h4: "?cs \<noteq> []"
    and h5: "those (map get_email ?cs) = Some ?q"
    and h6: "?bob \<in> set ?cs"
    by (simp_all add: ex_request_def)
  have bob: "augment ''u1'' ''c1'' ?bob =
      [(''email'', JStr ''bob@x.com''), (''user_id'', JStr ''u1''), (''conversation_id'', JStr ''c1'')]"
    by (simp add: augment_def)
  have h7: "accepts_ref (augment ''u1'' ''c1'' ?bob)"
    by (simp add: bob accepts_ref_def hydrate_def str_field_def)
  have nc: "newContacts ''u1'' ''c1'' (map d_email ([] :: doc list)) ?cs = ?nc"
    by (simp add: newContacts_def augment_def Set_has_def)
  have gcm: "getContactModel race_env ''campaign1'' ex_world = (Inr (Own (Model (Conn 0 ex_uri))), ?w1)"
    unfolding ex_world_def race_env_def by (rule ref_model)
  have fnd: "Contact_find race_env (model_conn (Model (Conn 0 ex_uri))) ?q (services ?w1)
               = (Inr [], ann_races no_docs)"
    by (simp add: race_env_sel find_ref_def no_docs_def)
  have fresh: "get_email ?bob \<notin> set (map (\<lambda>d. Some (JStr (d_email d))) ([] :: doc list))"
    by simp
  have prem: "header (hdr_campaign ex_request) = Some ''campaign1''
      \<and> map_of CAMPAIGNS ''campaign1'' = Some ''campaign1_db''
      \<and> getContactModel race_env ''campaign1'' ex_world = (Inr (Own (Model (Conn 0 ex_uri))), ?w1)
      \<and> Contact_find race_env (model_conn (Model (Conn 0 ex_uri))) ?q (services ?w1)
          = (Inr [], ann_races no_docs)
      \<and> get_email ?bob \<notin> set (map (\<lambda>d. Some (JStr (d_email d))) ([] :: doc list))"
    by (intro conjI hc campaign1_registered gcm fnd fresh)
  have ins: "Contact_insertMany race_env (model_conn (Model (Conn 0 ex_uri)))
               (newContacts ''u1'' ''c1'' (map d_email ([] :: doc list)) ?cs) False
               (ann_races no_docs)
             = (Inl (JsError ''BulkWriteError'' (JNum 11000)), ?s3)"
    unfolding nc
    by (simp add: race_env_sel insertMany_ref_def hydrate_def str_field_def no_docs_def
        ann_races_def ann_doc_def duplicate_key_def Let_def)
  note t = unordered_insert_is_not_aborted [OF h1 h2 h3 h4 h5 h6 h7
      ref_unordered_insert [of "''mongodb://db.example''" ann_races "\<lambda>m. False", folded race_env_def]
      ref_send_keeps_store [of "''mongodb://db.example''" ann_races "\<lambda>m. False", folded race_env_def],
      THEN conjunct1, rule_format, OF prem]
  note calls = t [THEN conjunct2, THEN conjunct1]
  note there = t [THEN conjunct2, THEN conjunct2, THEN conjunct1]
  note rejected = t [THEN conjunct2, THEN conjunct2, THEN conjunct2, rule_format, OF ins]
  from calls there rejected show ?thesis
    unfolding nc bob by (simp add: on_error_def)
qed

section \<open>All contacts new\<close>




end
